theory Spec2Isabelle
  imports Complex_Main
begin

section \<open>Exceptions and configuration\<close>

text \<open>
  The program is \<^verbatim>\<open>train.py\<close>: a training loop for a sequence classifier and a
  hyperparameter-search driver. An exception is a value of \<open>error\<close>; a function that can
  raise returns a sum, \<open>Inl\<close> carrying the exception.
\<close>

datatype error =
    NotImplementedError
  | ValueError
  | IndexError
  | RuntimeError
  | ZeroDivisionError
  | OSError

text \<open>
  The configuration is a nested dictionary; the keys the program reads are the fields of
  these records (\<^verbatim>\<open>config['optimizer']['name']\<close> is \<open>optimizer_name (optimizer config)\<close>).
\<close>

record optimizer_config =
  optimizer_name :: string
  optimizer_lr :: real
  optimizer_betas :: "real \<times> real"
  optimizer_eps :: real

record training_config =
  training_epochs :: int
  train_batch_size :: int
  n_train_workers :: int
  log_every_n_batches :: int
  eval_every_n_batches :: int

record evaluation_config =
  eval_batch_size :: int
  n_eval_workers :: int

record tune_config =
  tuning_method :: string
  resume :: bool
  working_dir :: string
  n_samples :: int
  max_t :: int
  discriminating_metric :: string
  discriminating_metric_mode :: string

record config =
  device :: string
  experiment_name :: string
  optimizer :: optimizer_config
  training :: training_config
  evaluation :: evaluation_config
  tune :: tune_config

section \<open>Optimizer group builder: \<^verbatim>\<open>get_optimizers\<close>\<close>

text \<open>
  A parameter tensor is identified by a number. The model class lives in \<^verbatim>\<open>models.py\<close>,
  which is not among the sources; \<^verbatim>\<open>get_optimizers\<close> reads it through
  \<^verbatim>\<open>get_non_sparse_parameters()\<close> and \<^verbatim>\<open>get_sparse_parameters()\<close> only. The field
  \<open>parameters\<close> stands for \<^verbatim>\<open>nn.Module.parameters()\<close>, the full parameter set.
\<close>

type_synonym param = nat

record module =
  get_non_sparse_parameters :: "param list"
  get_sparse_parameters :: "param list"
  parameters :: "param list"

text \<open>
  Modelled from the spec: the model class is missing from the sources. The spec's data
  model says that a model's learnable parameters are partitioned into disjoint dense and
  sparse subsets.
\<close>

definition partitioned :: "module \<Rightarrow> bool" where
  "partitioned m \<longleftrightarrow>
     set (parameters m) = set (get_non_sparse_parameters m) \<union> set (get_sparse_parameters m) \<and>
     set (get_non_sparse_parameters m) \<inter> set (get_sparse_parameters m) = {}"

text \<open>
  An optimizer object records the constructor call that made it: the class, the
  parameters it was bound to, and \<^verbatim>\<open>lr\<close>, \<^verbatim>\<open>betas\<close>, \<^verbatim>\<open>eps\<close>.
\<close>

datatype optimizer =
    Adam "param list" real "real \<times> real" real
  | SparseAdam "param list" real "real \<times> real" real

fun bound :: "optimizer \<Rightarrow> param list" where
  "bound (Adam ps _ _ _) = ps"
| "bound (SparseAdam ps _ _ _) = ps"

text \<open>
  \<^verbatim>\<open>optim.Adam\<close> and \<^verbatim>\<open>optim.SparseAdam\<close> are PyTorch's constructors. They validate
  their arguments and raise \<^verbatim>\<open>ValueError\<close> on a call they reject; which calls those are is
  the library's business, so it is the parameter \<open>accepts\<close>. Two instances are named: a
  library that accepts every call, and one that rejects an empty parameter list (as
  \<^verbatim>\<open>torch.optim.Optimizer\<close> does).
\<close>

definition construct :: "(optimizer \<Rightarrow> bool) \<Rightarrow> optimizer \<Rightarrow> error + optimizer" where
  "construct accepts opt = (if accepts opt then Inr opt else Inl ValueError)"

definition accept_all :: "optimizer \<Rightarrow> bool" where
  "accept_all opt = True"

definition accept_nonempty :: "optimizer \<Rightarrow> bool" where
  "accept_nonempty opt = (bound opt \<noteq> [])"

text \<open>
  \<^verbatim>\<open>get_optimizers\<close> returns a list \<^verbatim>\<open>[non_sparse]\<close> on one path and a tuple
  \<^verbatim>\<open>non_sparse, sparse\<close> on the other; callers only iterate over the result.
\<close>

datatype 'a pyseq = PyList "'a list" | PyTuple "'a list"

fun items :: "'a pyseq \<Rightarrow> 'a list" where
  "items (PyList xs) = xs"
| "items (PyTuple xs) = xs"

definition get_optimizers :: "(optimizer \<Rightarrow> bool) \<Rightarrow> module \<Rightarrow> config \<Rightarrow> error + optimizer pyseq" where
  "get_optimizers accepts model config =
     (if optimizer_name (optimizer config) = ''adam'' then
        (case construct accepts (Adam (get_non_sparse_parameters model)
                 (optimizer_lr (optimizer config)) (optimizer_betas (optimizer config))
                 (optimizer_eps (optimizer config))) of
           Inl e \<Rightarrow> Inl e
         | Inr non_sparse \<Rightarrow>
             (let sparse_params = get_sparse_parameters model in
              if length sparse_params = 0 then Inr (PyList [non_sparse])
              else
                (case construct accepts (SparseAdam (get_sparse_parameters model)
                         (optimizer_lr (optimizer config)) (optimizer_betas (optimizer config))
                         (optimizer_eps (optimizer config))) of
                   Inl e \<Rightarrow> Inl e
                 | Inr sparse \<Rightarrow> Inr (PyTuple [non_sparse, sparse]))))
      else Inl NotImplementedError)"

text \<open>The number of non-empty parameter subsets of a model (0, 1 or 2).\<close>

definition nonempty_subsets :: "module \<Rightarrow> nat" where
  "nonempty_subsets m =
     length (filter (\<lambda>ps. ps \<noteq> []) [get_non_sparse_parameters m, get_sparse_parameters m])"

text \<open>No parameter is bound by two optimizers of a group.\<close>

fun no_overlap :: "optimizer list \<Rightarrow> bool" where
  "no_overlap [] = True"
| "no_overlap (x # xs) = (list_all (\<lambda>y. set (bound x) \<inter> set (bound y) = {}) xs \<and> no_overlap xs)"

text \<open>Concrete inputs used by the examples below.\<close>

definition adam_config :: config where
  "adam_config =
     \<lparr>device = ''cpu'', experiment_name = ''exp'',
      optimizer = \<lparr>optimizer_name = ''adam'', optimizer_lr = 1 / 1000,
                   optimizer_betas = (9 / 10, 999 / 1000), optimizer_eps = 1 / 100000000\<rparr>,
      training = \<lparr>training_epochs = 1, train_batch_size = 8, n_train_workers = 0,
                  log_every_n_batches = 1, eval_every_n_batches = 1\<rparr>,
      evaluation = \<lparr>eval_batch_size = 8, n_eval_workers = 0\<rparr>,
      tune = \<lparr>tuning_method = ''hyperopt'', resume = True, working_dir = ''work'',
              n_samples = 3, max_t = 100, discriminating_metric = ''accuracy'',
              discriminating_metric_mode = ''max''\<rparr>\<rparr>"

definition mixed_model :: module where
  "mixed_model = \<lparr>get_non_sparse_parameters = [0, 1], get_sparse_parameters = [2],
                   parameters = [0, 1, 2]\<rparr>"

definition sparse_only_model :: module where
  "sparse_only_model = \<lparr>get_non_sparse_parameters = [], get_sparse_parameters = [2],
                         parameters = [2]\<rparr>"

section \<open>Batch sources: \<^verbatim>\<open>get_train_dataloader\<close>, \<^verbatim>\<open>get_eval_dataloader\<close>\<close>

text \<open>
  A token batch is a matrix of token ids. A dataset object has an identity (\<open>dataset_id\<close>,
  its allocation number): two objects built from the same files are different instances.
\<close>

type_synonym tokens = "int list list"

record 'ex dataset =
  dataset_id :: nat
  dataset_paths :: "string list"
  examples :: "'ex list"

record 'ex dataloader =
  dataset :: "'ex dataset"
  batch_size :: int
  shuffle :: bool
  drop_last :: bool
  num_workers :: int
  collate_fn :: "'ex list \<Rightarrow> int list \<times> tokens"

text \<open>
  The module globals \<^verbatim>\<open>train_dataset\<close> and \<^verbatim>\<open>eval_dataset\<close>, both \<^verbatim>\<open>None\<close> when the
  module is loaded. \<open>created\<close> is a log of every \<^verbatim>\<open>data.CSVDatasetsMerger\<close> object built so
  far, with the split (\<^verbatim>\<open>'train'\<close> or \<^verbatim>\<open>'test'\<close>) it was built for; the program does not
  read it.
\<close>

record 'ex globals =
  train_dataset :: "'ex dataset option"
  eval_dataset :: "'ex dataset option"
  created :: "(string \<times> 'ex dataset) list"

definition initial_globals :: "'ex globals" where
  "initial_globals = \<lparr>train_dataset = None, eval_dataset = None, created = []\<rparr>"

text \<open>
  What the data code calls outside \<^verbatim>\<open>train.py\<close>: \<^verbatim>\<open>helpers.get_datasets_paths\<close>,
  the file reading done by \<^verbatim>\<open>data.CSVDatasetsMerger\<close> (it can fail), the two
  \<^verbatim>\<open>TextPreprocessor\<close> objects used as collate functions, and the order in which a
  shuffling loader visits its dataset on its \<open>k\<close>-th pass.
\<close>

record 'ex data_externals =
  get_datasets_paths :: "config \<Rightarrow> string \<Rightarrow> string list"
  read_datasets :: "string list \<Rightarrow> error + 'ex list"
  train_text_proc :: "'ex list \<Rightarrow> int list \<times> tokens"
  eval_text_proc :: "'ex list \<Rightarrow> int list \<times> tokens"
  permutation :: "nat \<Rightarrow> 'ex list \<Rightarrow> 'ex list"

definition CSVDatasetsMerger ::
  "'ex data_externals \<Rightarrow> string \<Rightarrow> string list \<Rightarrow> 'ex globals \<Rightarrow> error + ('ex globals \<times> 'ex dataset)" where
  "CSVDatasetsMerger DX split paths g =
     (case read_datasets DX paths of
        Inl e \<Rightarrow> Inl e
      | Inr rows \<Rightarrow>
          (let d = \<lparr>dataset_id = length (created g), dataset_paths = paths, examples = rows\<rparr>
           in Inr (g\<lparr>created := created g @ [(split, d)]\<rparr>, d)))"

text \<open>
  \<^verbatim>\<open>torch.utils.data.DataLoader\<close> rejects a batch size that is not positive and a
  negative worker count with \<^verbatim>\<open>ValueError\<close>.
\<close>

definition DataLoader ::
  "'ex dataset \<Rightarrow> int \<Rightarrow> bool \<Rightarrow> bool \<Rightarrow> int \<Rightarrow> ('ex list \<Rightarrow> int list \<times> tokens) \<Rightarrow> error + 'ex dataloader" where
  "DataLoader d bs sh dl nw cf =
     (if bs \<le> 0 \<or> nw < 0 then Inl ValueError
      else Inr \<lparr>dataset = d, batch_size = bs, shuffle = sh, drop_last = dl, num_workers = nw,
                collate_fn = cf\<rparr>)"

text \<open>An exception leaves the globals as they are at the raise: the pair \<open>(e, g)\<close>.\<close>

definition get_train_dataloader ::
  "'ex data_externals \<Rightarrow> config \<Rightarrow> ('ex list \<Rightarrow> int list \<times> tokens) \<Rightarrow> 'ex globals \<Rightarrow>
     (error \<times> 'ex globals) + ('ex globals \<times> 'ex dataloader)" where
  "get_train_dataloader DX config transformer g =
     (case (case train_dataset g of
              None \<Rightarrow>
                (let train_paths = get_datasets_paths DX config ''train'' in
                 case CSVDatasetsMerger DX ''train'' train_paths g of
                   Inl e \<Rightarrow> Inl (e, g)
                 | Inr (g1, d) \<Rightarrow> Inr (g1\<lparr>train_dataset := Some d\<rparr>, d))
            | Some d \<Rightarrow> Inr (g, d)) of
        Inl err \<Rightarrow> Inl err
      | Inr (g2, d) \<Rightarrow>
          (case DataLoader d (train_batch_size (training config)) True False
                  (n_train_workers (training config)) transformer of
             Inl e \<Rightarrow> Inl (e, g2)
           | Inr loader \<Rightarrow> Inr (g2, loader)))"

definition get_eval_dataloader ::
  "'ex data_externals \<Rightarrow> config \<Rightarrow> ('ex list \<Rightarrow> int list \<times> tokens) \<Rightarrow> 'ex globals \<Rightarrow>
     (error \<times> 'ex globals) + ('ex globals \<times> 'ex dataloader)" where
  "get_eval_dataloader DX config transformer g =
     (case (case eval_dataset g of
              None \<Rightarrow>
                (let eval_paths = get_datasets_paths DX config ''test'' in
                 case CSVDatasetsMerger DX ''test'' eval_paths g of
                   Inl e \<Rightarrow> Inl (e, g)
                 | Inr (g1, d) \<Rightarrow> Inr (g1\<lparr>eval_dataset := Some d\<rparr>, d))
            | Some d \<Rightarrow> Inr (g, d)) of
        Inl err \<Rightarrow> Inl err
      | Inr (g2, d) \<Rightarrow>
          (case DataLoader d (eval_batch_size (evaluation config)) False False
                  (n_eval_workers (evaluation config)) transformer of
             Inl e \<Rightarrow> Inl (e, g2)
           | Inr loader \<Rightarrow> Inr (g2, loader)))"

text \<open>
  One process makes any sequence of calls to the two functions, each with a configuration
  of its own; a call that raises is caught by its caller and the process goes on.
\<close>

datatype call = GetTrain config | GetEval config

fun do_call ::
  "'ex data_externals \<Rightarrow> call \<Rightarrow> 'ex globals \<Rightarrow> (error \<times> 'ex globals) + ('ex globals \<times> 'ex dataloader)" where
  "do_call DX (GetTrain config) g = get_train_dataloader DX config (train_text_proc DX) g"
| "do_call DX (GetEval config) g = get_eval_dataloader DX config (eval_text_proc DX) g"

definition call_split :: "call \<Rightarrow> string" where
  "call_split c = (case c of GetTrain _ \<Rightarrow> ''train'' | GetEval _ \<Rightarrow> ''test'')"

definition globals_after :: "(error \<times> 'ex globals) + ('ex globals \<times> 'ex dataloader) \<Rightarrow> 'ex globals" where
  "globals_after r = (case r of Inl (e, g) \<Rightarrow> g | Inr (g, loader) \<Rightarrow> g)"

text \<open>
  \<open>run_calls\<close> returns the globals after the calls and, for each call that returned, the
  split it asked for and the loader it got.
\<close>

fun run_calls ::
  "'ex data_externals \<Rightarrow> call list \<Rightarrow> 'ex globals \<Rightarrow> 'ex globals \<times> (string \<times> 'ex dataloader) list" where
  "run_calls DX [] g = (g, [])"
| "run_calls DX (c # cs) g =
     (case do_call DX c g of
        Inl (e, g1) \<Rightarrow> run_calls DX cs g1
      | Inr (g1, loader) \<Rightarrow>
          (let (g2, loaders) = run_calls DX cs g1 in (g2, (call_split c, loader) # loaders)))"

definition created_for :: "string \<Rightarrow> 'ex globals \<Rightarrow> 'ex dataset list" where
  "created_for split g = map snd (filter (\<lambda>(s, d). s = split) (created g))"

text \<open>
  Iterating a loader: the batch sampler cuts the (shuffled) dataset into runs of
  \<open>batch_size\<close> examples, the last one shorter unless \<open>drop_last\<close>; each run goes through the
  collate function.
\<close>

fun chunks :: "nat \<Rightarrow> 'a list \<Rightarrow> 'a list list" where
  "chunks n xs = (if n = 0 \<or> xs = [] then [] else take n xs # chunks n (drop n xs))"

definition iterate :: "'ex data_externals \<Rightarrow> 'ex dataloader \<Rightarrow> nat \<Rightarrow> (int list \<times> tokens) list" where
  "iterate DX loader k =
     (let order = (if shuffle loader then permutation DX k (examples (dataset loader))
                   else examples (dataset loader));
          groups = chunks (nat (batch_size loader)) order;
          kept = (if drop_last loader
                  then filter (\<lambda>c. length c = nat (batch_size loader)) groups else groups)
      in map (collate_fn loader) kept)"

section \<open>Training step: \<^verbatim>\<open>training_step\<close>\<close>

text \<open>
  The model, the optimizers, the loss function, the evaluator and the experiment tracker
  are objects of libraries (PyTorch, Comet) and of modules that are not among the sources.
  A call to one of them is recorded in a trace, in the order the program makes the calls:
  \<^item> \<open>ModelTrain\<close>: \<^verbatim>\<open>model.train()\<close>;
  \<^item> \<open>ZeroGrad opt\<close>: \<^verbatim>\<open>opt.zero_grad()\<close>;
  \<^item> \<open>Forward mode tokens\<close>: \<^verbatim>\<open>model(tokens)\<close>, with the mode the model is in at the call
    (\<open>True\<close> is training mode);
  \<^item> \<open>LossFunc outputs labels\<close>: \<^verbatim>\<open>loss_func(outputs, labels)\<close>;
  \<^item> \<open>Backward loss\<close>: \<^verbatim>\<open>loss.backward()\<close>;
  \<^item> \<open>OptStep opt\<close>: \<^verbatim>\<open>opt.step()\<close>;
  \<^item> \<open>TrainMetric loss step epoch\<close>: the call
    \<^verbatim>\<open>exp.log_metric('train_loss', loss, step=num_examples, epoch=epoch)\<close> of the training loop;
  \<^item> \<open>EvalModel\<close>: \<^verbatim>\<open>evaluator.eval_model(model, loss_func)\<close>;
  \<^item> \<open>EvalMetric name v step epoch\<close>: the call
    \<^verbatim>\<open>exp.log_metric(metric, results[metric], step=num_examples, epoch=epoch)\<close> that follows an
    evaluation.
  Output to the terminal (\<^verbatim>\<open>print\<close>) is not recorded here.
\<close>

datatype ('l, 'v) event =
    ModelTrain
  | ZeroGrad optimizer
  | Forward bool tokens
  | LossFunc "real list list" "int list"
  | Backward 'l
  | OptStep optimizer
  | TrainMetric 'l nat nat
  | EvalModel
  | EvalMetric string 'v nat nat

text \<open>
  The state a training run works on: the model's mode flag (\<^verbatim>\<open>model.training\<close>), everything
  else the model and the optimizers hold (weights, gradients, moments) as one value of an
  unknown type \<open>'w\<close>, and the trace.
\<close>

record ('w, 'l, 'v) world =
  training_mode :: bool
  weights :: 'w
  trace :: "('l, 'v) event list"

text \<open>
  What the calls compute is given from outside. Model outputs are score tensors of shape
  (steps, batch, classes), written as nested lists; scores are real numbers. The forward
  pass, the loss function and the evaluator can raise.
\<close>

record ('ex, 'w, 'l, 'v) externals =
  get_model :: "config \<Rightarrow> module \<times> 'w"
  forward :: "bool \<Rightarrow> 'w \<Rightarrow> tokens \<Rightarrow> error + real list list list"
  loss_function :: "real list list \<Rightarrow> int list \<Rightarrow> error + 'l"
  zero_grad :: "optimizer \<Rightarrow> 'w \<Rightarrow> 'w"
  backward :: "'l \<Rightarrow> 'w \<Rightarrow> 'w"
  opt_step :: "optimizer \<Rightarrow> 'w \<Rightarrow> 'w"
  eval_model :: "'ex dataloader \<Rightarrow> bool \<Rightarrow> 'w \<Rightarrow> error + (bool \<times> 'w \<times> (string \<times> 'v) list)"

definition record_event :: "('l, 'v) event \<Rightarrow> ('w, 'l, 'v) world \<Rightarrow> ('w, 'l, 'v) world" where
  "record_event e s = s\<lparr>trace := trace s @ [e]\<rparr>"

definition model_train :: "('w, 'l, 'v) world \<Rightarrow> ('w, 'l, 'v) world" where
  "model_train s = record_event ModelTrain (s\<lparr>training_mode := True\<rparr>)"

definition opt_zero_grad ::
  "('ex, 'w, 'l, 'v) externals \<Rightarrow> optimizer \<Rightarrow> ('w, 'l, 'v) world \<Rightarrow> ('w, 'l, 'v) world" where
  "opt_zero_grad X opt s = record_event (ZeroGrad opt) (s\<lparr>weights := zero_grad X opt (weights s)\<rparr>)"

definition model_call ::
  "('ex, 'w, 'l, 'v) externals \<Rightarrow> tokens \<Rightarrow> ('w, 'l, 'v) world \<Rightarrow>
     (error \<times> ('w, 'l, 'v) world) + (('w, 'l, 'v) world \<times> real list list list)" where
  "model_call X tokens s =
     (let s1 = record_event (Forward (training_mode s) tokens) s in
      case forward X (training_mode s) (weights s) tokens of
        Inl e \<Rightarrow> Inl (e, s1)
      | Inr outputs \<Rightarrow> Inr (s1, outputs))"

definition loss_call ::
  "('ex, 'w, 'l, 'v) externals \<Rightarrow> real list list \<Rightarrow> int list \<Rightarrow> ('w, 'l, 'v) world \<Rightarrow>
     (error \<times> ('w, 'l, 'v) world) + (('w, 'l, 'v) world \<times> 'l)" where
  "loss_call X outputs labels s =
     (let s1 = record_event (LossFunc outputs labels) s in
      case loss_function X outputs labels of
        Inl e \<Rightarrow> Inl (e, s1)
      | Inr loss \<Rightarrow> Inr (s1, loss))"

definition loss_backward ::
  "('ex, 'w, 'l, 'v) externals \<Rightarrow> 'l \<Rightarrow> ('w, 'l, 'v) world \<Rightarrow> ('w, 'l, 'v) world" where
  "loss_backward X loss s = record_event (Backward loss) (s\<lparr>weights := backward X loss (weights s)\<rparr>)"

definition opt_step_call ::
  "('ex, 'w, 'l, 'v) externals \<Rightarrow> optimizer \<Rightarrow> ('w, 'l, 'v) world \<Rightarrow> ('w, 'l, 'v) world" where
  "opt_step_call X opt s = record_event (OptStep opt) (s\<lparr>weights := opt_step X opt (weights s)\<rparr>)"

text \<open>
  \<^verbatim>\<open>torch.argmax\<close> along the class dimension: the index of the first greatest score of a
  row.
\<close>

fun argmax :: "real list \<Rightarrow> nat" where
  "argmax [] = 0"
| "argmax [x] = 0"
| "argmax (x # y # ys) = (let k = argmax (y # ys) in if (y # ys) ! k \<le> x then 0 else Suc k)"

text \<open>
  \<^verbatim>\<open>torch.argmax(outputs[-1, :, :], dim=1)\<close>: indexing raises when there is no output step,
  and the reduction raises over an empty class dimension.
\<close>

definition chosen_labels :: "real list list list \<Rightarrow> error + int list" where
  "chosen_labels outputs =
     (if outputs = [] then Inl IndexError
      else if list_ex (\<lambda>row. row = []) (last outputs) then Inl IndexError
      else Inr (map (\<lambda>row. int (argmax row)) (last outputs)))"

text \<open>
  \<^verbatim>\<open>chosen_label == labels\<close> on two vectors: elementwise when they have one length; a
  vector of one element is broadcast against the other; any other pair of lengths
  raises \<^verbatim>\<open>RuntimeError\<close>.
\<close>

definition tensor_eq :: "int list \<Rightarrow> int list \<Rightarrow> error + bool list" where
  "tensor_eq xs ys =
     (if length xs = length ys then Inr (map (\<lambda>(x, y). x = y) (zip xs ys))
      else if length ys = 1 then Inr (map (\<lambda>x. x = hd ys) xs)
      else if length xs = 1 then Inr (map (\<lambda>y. hd xs = y) ys)
      else Inl RuntimeError)"

text \<open>
  \<^verbatim>\<open>chosen_label[mask]\<close>: the entries of the vector where the mask is true; a mask of
  another length than the vector raises \<^verbatim>\<open>IndexError\<close>.
\<close>

definition masked_select :: "int list \<Rightarrow> bool list \<Rightarrow> error + int list" where
  "masked_select xs agree =
     (if length agree \<noteq> length xs then Inl IndexError
      else Inr (map fst (filter snd (zip xs agree))))"

text \<open>
  The step. The source does not compare the length of the label vector with the batch
  dimension of the outputs: the comparison and the masked indexing follow the tensor
  rules above, so a single label is compared with every row. An empty label vector makes
  the division raise. \<^verbatim>\<open>outputs.view(-1, classes)\<close> of a (steps, batch, classes) tensor is
  the row-major list of its (steps * batch) rows, and \<^verbatim>\<open>labels.repeat(output_len)\<close> is the
  label vector written \<open>output_len\<close> times in a row. The quotient of the two counts is taken
  as a real number.
\<close>

definition training_step ::
  "('ex, 'w, 'l, 'v) externals \<Rightarrow> int list \<times> tokens \<Rightarrow> optimizer pyseq \<Rightarrow> ('w, 'l, 'v) world \<Rightarrow>
     (error \<times> ('w, 'l, 'v) world) + (('w, 'l, 'v) world \<times> 'l \<times> real)" where
  "training_step X training_batch optimizers s =
     (let s1 = model_train s;
          s2 = fold (opt_zero_grad X) (items optimizers) s1;
          labels = fst training_batch;
          tokens = snd training_batch
      in case model_call X tokens s2 of
           Inl err \<Rightarrow> Inl err
         | Inr (s3, outputs) \<Rightarrow>
             (case chosen_labels outputs of
                Inl e \<Rightarrow> Inl (e, s3)
              | Inr chosen_label \<Rightarrow>
                  (case tensor_eq chosen_label labels of
                     Inl e \<Rightarrow> Inl (e, s3)
                   | Inr agree \<Rightarrow>
                       (case masked_select chosen_label agree of
                          Inl e \<Rightarrow> Inl (e, s3)
                        | Inr selected \<Rightarrow>
                            if length labels = 0 then Inl (ZeroDivisionError, s3)
                            else
                              (let train_accuracy = real (length selected) / real (length labels);
                                   output_len = length outputs;
                                   outputs2 = concat outputs;
                                   labels2 = concat (replicate output_len labels)
                               in case loss_call X outputs2 labels2 s3 of
                                    Inl err \<Rightarrow> Inl err
                                  | Inr (s4, loss) \<Rightarrow>
                                      (let s5 = loss_backward X loss s4;
                                           s6 = fold (opt_step_call X) (items optimizers) s5
                                       in Inr (s6, loss, train_accuracy)))))))"

section \<open>Single-configuration training loop: \<^verbatim>\<open>normal_training\<close>\<close>

definition setup_training ::
  "('ex, 'w, 'l, 'v) externals \<Rightarrow> 'ex data_externals \<Rightarrow> config \<Rightarrow> 'ex globals \<Rightarrow>
     (error \<times> 'ex globals) + ('ex globals \<times> (module \<times> 'w) \<times> 'ex dataloader \<times> 'ex dataloader)" where
  "setup_training X DX config g =
     (case get_train_dataloader DX config (train_text_proc DX) g of
        Inl err \<Rightarrow> Inl err
      | Inr (g1, train_dataloader) \<Rightarrow>
          (case get_eval_dataloader DX config (eval_text_proc DX) g1 of
             Inl err \<Rightarrow> Inl err
           | Inr (g2, eval_dataloader) \<Rightarrow>
               Inr (g2, get_model X config, train_dataloader, eval_dataloader)))"

definition log_train_loss :: "'l \<Rightarrow> nat \<Rightarrow> nat \<Rightarrow> ('w, 'l, 'v) world \<Rightarrow> ('w, 'l, 'v) world" where
  "log_train_loss loss num_examples epoch s = record_event (TrainMetric loss num_examples epoch) s"

definition log_results :: "(string \<times> 'v) list \<Rightarrow> nat \<Rightarrow> nat \<Rightarrow> ('w, 'l, 'v) world \<Rightarrow> ('w, 'l, 'v) world" where
  "log_results results num_examples epoch s =
     fold (\<lambda>(metric, v). record_event (EvalMetric metric v num_examples epoch)) results s"

definition evaluate ::
  "('ex, 'w, 'l, 'v) externals \<Rightarrow> 'ex dataloader \<Rightarrow> ('w, 'l, 'v) world \<Rightarrow>
     (error \<times> ('w, 'l, 'v) world) + (('w, 'l, 'v) world \<times> (string \<times> 'v) list)" where
  "evaluate X eval_dataloader s =
     (let s1 = record_event EvalModel s in
      case eval_model X eval_dataloader (training_mode s) (weights s) of
        Inl e \<Rightarrow> Inl (e, s1)
      | Inr (mode, w, results) \<Rightarrow> Inr (s1\<lparr>training_mode := mode, weights := w\<rparr>, results))"

text \<open>
  The body of the inner loop for the batch at index \<open>idx\<close> of epoch \<open>epoch\<close>; the state is
  the world and \<^verbatim>\<open>num_examples\<close>. Python's \<^verbatim>\<open>%\<close> raises on a zero divisor and otherwise
  agrees with \<open>mod\<close> on the integers.
\<close>

definition batch_body ::
  "('ex, 'w, 'l, 'v) externals \<Rightarrow> config \<Rightarrow> optimizer pyseq \<Rightarrow> 'ex dataloader \<Rightarrow> nat \<Rightarrow> nat \<Rightarrow>
     int list \<times> tokens \<Rightarrow> ('w, 'l, 'v) world \<times> nat \<Rightarrow>
     (error \<times> ('w, 'l, 'v) world) + (('w, 'l, 'v) world \<times> nat)" where
  "batch_body X config optimizers eval_dataloader epoch idx batch sn =
     (let s = fst sn;
          num_examples = snd sn + length (fst batch)
      in case training_step X batch optimizers s of
           Inl err \<Rightarrow> Inl err
         | Inr (s1, loss, train_accuracy) \<Rightarrow>
             if log_every_n_batches (training config) = 0 then Inl (ZeroDivisionError, s1)
             else
               (let s2 = (if int idx mod log_every_n_batches (training config) = 0
                          then log_train_loss loss num_examples epoch s1 else s1)
                in if eval_every_n_batches (training config) = 0 then Inl (ZeroDivisionError, s2)
                   else if int idx mod eval_every_n_batches (training config) = 0 then
                     (case evaluate X eval_dataloader s2 of
                        Inl err \<Rightarrow> Inl err
                      | Inr (s3, results) \<Rightarrow> Inr (log_results results num_examples epoch s3, num_examples))
                   else Inr (s2, num_examples)))"

text \<open>\<^verbatim>\<open>for idx, batch in enumerate(train_dataloader)\<close>, from index \<open>idx\<close> on.\<close>

fun batch_loop ::
  "('ex, 'w, 'l, 'v) externals \<Rightarrow> config \<Rightarrow> optimizer pyseq \<Rightarrow> 'ex dataloader \<Rightarrow> nat \<Rightarrow> nat \<Rightarrow>
     (int list \<times> tokens) list \<Rightarrow> ('w, 'l, 'v) world \<times> nat \<Rightarrow>
     (error \<times> ('w, 'l, 'v) world) + (('w, 'l, 'v) world \<times> nat)" where
  "batch_loop X config optimizers eval_dataloader epoch idx [] sn = Inr sn"
| "batch_loop X config optimizers eval_dataloader epoch idx (batch # rest) sn =
     (case batch_body X config optimizers eval_dataloader epoch idx batch sn of
        Inl err \<Rightarrow> Inl err
      | Inr sn1 \<Rightarrow> batch_loop X config optimizers eval_dataloader epoch (Suc idx) rest sn1)"

text \<open>
  \<^verbatim>\<open>for epoch in range(training_epochs)\<close>: every epoch iterates the loader afresh, with
  indices from 0.
\<close>

fun epoch_loop ::
  "('ex, 'w, 'l, 'v) externals \<Rightarrow> 'ex data_externals \<Rightarrow> config \<Rightarrow> optimizer pyseq \<Rightarrow>
     'ex dataloader \<Rightarrow> 'ex dataloader \<Rightarrow> nat list \<Rightarrow> ('w, 'l, 'v) world \<times> nat \<Rightarrow>
     (error \<times> ('w, 'l, 'v) world) + (('w, 'l, 'v) world \<times> nat)" where
  "epoch_loop X DX config optimizers train_dataloader eval_dataloader [] sn = Inr sn"
| "epoch_loop X DX config optimizers train_dataloader eval_dataloader (epoch # epochs) sn =
     (case batch_loop X config optimizers eval_dataloader epoch 0
             (iterate DX train_dataloader epoch) sn of
        Inl err \<Rightarrow> Inl err
      | Inr sn1 \<Rightarrow> epoch_loop X DX config optimizers train_dataloader eval_dataloader epochs sn1)"

text \<open>
  \<^verbatim>\<open>normal_training\<close>. The run starts with an empty trace; a model fresh from its
  constructor is in training mode. A raise returns the exception, the globals and the
  trace at that point. The experiment tracker's construction and naming, the choice of the
  device and the moves of the model and the batches to it are calls into Comet and
  PyTorch whose results the loop does not read; they are left out, as is \<^verbatim>\<open>print\<close>.
\<close>

definition normal_training ::
  "('ex, 'w, 'l, 'v) externals \<Rightarrow> 'ex data_externals \<Rightarrow> (optimizer \<Rightarrow> bool) \<Rightarrow> config \<Rightarrow> 'ex globals \<Rightarrow>
     (error \<times> 'ex globals \<times> ('l, 'v) event list) + ('ex globals \<times> ('w, 'l, 'v) world)" where
  "normal_training X DX accepts config g =
     (case setup_training X DX config g of
        Inl (e, g1) \<Rightarrow> Inl (e, g1, [])
      | Inr (g1, (model, w), train_dataloader, eval_dataloader) \<Rightarrow>
          (let s1 = model_train \<lparr>training_mode = True, weights = w, trace = []\<rparr> in
           case get_optimizers accepts model config of
             Inl e \<Rightarrow> Inl (e, g1, trace s1)
           | Inr optimizers \<Rightarrow>
               (case epoch_loop X DX config optimizers train_dataloader eval_dataloader
                       [0..<nat (training_epochs (training config))] (s1, 0) of
                  Inl (e, s) \<Rightarrow> Inl (e, g1, trace s)
                | Inr (s, num_examples) \<Rightarrow> Inr (g1, s))))"

text \<open>The steps of the training metric reports of a trace, in order.\<close>

fun train_report_steps :: "('l, 'v) event list \<Rightarrow> nat list" where
  "train_report_steps [] = []"
| "train_report_steps (TrainMetric loss n epoch # es) = n # train_report_steps es"
| "train_report_steps (e # es) = train_report_steps es"

text \<open>Whether a trace holds a call that belongs to a training step.\<close>

fun is_training_event :: "('l, 'v) event \<Rightarrow> bool" where
  "is_training_event (ZeroGrad opt) = True"
| "is_training_event (Forward mode tokens) = True"
| "is_training_event (LossFunc outputs labels) = True"
| "is_training_event (Backward loss) = True"
| "is_training_event (OptStep opt) = True"
| "is_training_event e = False"

section \<open>Search orchestrator: \<^verbatim>\<open>tune_training\<close>\<close>

text \<open>
  The state of the search algorithm object (\<^verbatim>\<open>HyperOptSearch\<close>) is its observation
  history \<^verbatim>\<open>_hpopt_trials\<close>, a list of evaluated configurations of an unknown type \<open>'c\<close>;
  a new object has the empty history.
\<close>

datatype 'c search_alg = NoSearchAlg | TuneBOHB | HyperOptSearch "'c list"

datatype scheduler = DefaultScheduler | HyperBandForBOHB | HyperOptFIFO string

datatype py_result = ExperimentAnalysis | PyNone

text \<open>
  The calls \<^verbatim>\<open>tune_training\<close> makes, in order:
  \<^item> \<open>RayInit\<close>: \<^verbatim>\<open>ray.init()\<close>, which starts the Ray runtime of the process;
  \<^item> \<open>MakeBOHB\<close>: the configuration space, \<^verbatim>\<open>HyperBandForBOHB\<close> and \<^verbatim>\<open>TuneBOHB\<close> are built;
  \<^item> \<open>MakeHyperOptSearch\<close>: \<^verbatim>\<open>HyperOptSearch(space, ...)\<close> is built;
  \<^item> \<open>AlgoRestore path\<close>: \<^verbatim>\<open>algo.restore(path)\<close>;
  \<^item> \<open>PrintLoaded n\<close>: the green message that \<open>n\<close> trials were loaded;
  \<^item> \<open>PrintUnableToLoad\<close>: the red message
    \<^verbatim>\<open>Unable to load trials. Cold starting ...\<close>;
  \<^item> \<open>TuneRun sched alg n\<close>: \<^verbatim>\<open>tune.run(TuneTrainable, ...)\<close> with this scheduler, this
    search algorithm and \<^verbatim>\<open>num_samples=n\<close>; the trial wrappers (\<^verbatim>\<open>TuneTrainable\<close> objects)
    are built and all configurations are sampled inside this call;
  \<^item> \<open>AlgoSave path h\<close>: \<^verbatim>\<open>algo.save(path)\<close> when the algorithm holds the history \<open>h\<close>;
  \<^item> \<open>PrintCheckpointing\<close>: the green message \<^verbatim>\<open>Checkpointing hyperopt ...\<close>;
  \<^item> \<open>SchedulerOnTrialComplete t\<close>: the scheduler's own
    \<^verbatim>\<open>FIFOScheduler.on_trial_complete\<close> for trial \<open>t\<close>.
\<close>

datatype 'c tune_event =
    RayInit
  | MakeBOHB
  | MakeHyperOptSearch
  | AlgoRestore string
  | PrintLoaded nat
  | PrintUnableToLoad
  | TuneRun scheduler "'c search_alg" int
  | AlgoSave string "'c list"
  | PrintCheckpointing
  | SchedulerOnTrialComplete nat

text \<open>
  The checkpoint files (a path holds a saved history, or nothing that can be loaded) and
  the trace of calls.
\<close>

record 'c tune_world =
  files :: "string \<Rightarrow> 'c list option"
  tune_trace :: "'c tune_event list"

definition emit :: "'c tune_event \<Rightarrow> 'c tune_world \<Rightarrow> 'c tune_world" where
  "emit e w = w\<lparr>tune_trace := tune_trace w @ [e]\<rparr>"

text \<open>\<^verbatim>\<open>os.path.join\<close> of two components (POSIX).\<close>

definition path_join :: "string \<Rightarrow> string \<Rightarrow> string" where
  "path_join a b =
     (if b \<noteq> [] \<and> hd b = CHR ''/'' then b
      else if a = [] \<or> last a = CHR ''/'' then a @ b
      else a @ ''/'' @ b)"

definition hyper_opt_checkpoint_dir :: "config \<Rightarrow> string" where
  "hyper_opt_checkpoint_dir config =
     path_join (path_join (working_dir (tune config)) (experiment_name config)) ''hyperopt''"

text \<open>
  \<^verbatim>\<open>algo.restore(path)\<close> raises when nothing can be loaded from the path and otherwise
  returns the stored history; \<^verbatim>\<open>algo.save(path)\<close> stores the history the algorithm holds.
\<close>

definition algo_restore :: "string \<Rightarrow> 'c tune_world \<Rightarrow> (error \<times> 'c tune_world) + ('c tune_world \<times> 'c list)" where
  "algo_restore path w =
     (let w1 = emit (AlgoRestore path) w in
      case files w path of
        None \<Rightarrow> Inl (OSError, w1)
      | Some h \<Rightarrow> Inr (w1, h))"

definition algo_save :: "string \<Rightarrow> 'c list \<Rightarrow> 'c tune_world \<Rightarrow> 'c tune_world" where
  "algo_save path h w = emit (AlgoSave path h) (w\<lparr>files := (files w)(path := Some h)\<rparr>)"

text \<open>
  The two trial-completion hooks: the library's, and \<^verbatim>\<open>HyperOptFIFO.on_trial_complete\<close>,
  which saves the algorithm, prints, and then calls the library's.
\<close>

definition FIFOScheduler_on_trial_complete :: "nat \<Rightarrow> 'c list \<Rightarrow> 'c tune_world \<Rightarrow> 'c tune_world" where
  "FIFOScheduler_on_trial_complete trial h w = emit (SchedulerOnTrialComplete trial) w"

definition HyperOptFIFO_on_trial_complete ::
  "string \<Rightarrow> nat \<Rightarrow> 'c list \<Rightarrow> 'c tune_world \<Rightarrow> 'c tune_world" where
  "HyperOptFIFO_on_trial_complete path trial h w =
     FIFOScheduler_on_trial_complete trial h (emit PrintCheckpointing (algo_save path h w))"

text \<open>
  What happens inside \<^verbatim>\<open>tune.run\<close> is Ray's business. All the program sees of it is that
  the scheduler's \<^verbatim>\<open>on_trial_complete\<close> is called once for every trial that completes; a
  run is therefore given as the list of its completions, each with the trial's number and
  the history the search algorithm holds at that moment.
\<close>

fun run_trials ::
  "(nat \<Rightarrow> 'c list \<Rightarrow> 'c tune_world \<Rightarrow> 'c tune_world) \<Rightarrow> (nat \<times> 'c list) list \<Rightarrow> 'c tune_world \<Rightarrow> 'c tune_world" where
  "run_trials hook [] w = w"
| "run_trials hook ((trial, h) # rest) w = run_trials hook rest (hook trial h w)"

definition tune_run ::
  "scheduler \<Rightarrow> 'c search_alg \<Rightarrow> int \<Rightarrow> (nat \<times> 'c list) list \<Rightarrow> 'c tune_world \<Rightarrow> 'c tune_world" where
  "tune_run sched alg num_samples completions w =
     run_trials
       (case sched of
          HyperOptFIFO path \<Rightarrow> HyperOptFIFO_on_trial_complete path
        | _ \<Rightarrow> FIFOScheduler_on_trial_complete)
       completions (emit (TuneRun sched alg num_samples) w)"

text \<open>
  \<^verbatim>\<open>tune_training\<close>. The imports and the stop dictionary built before the dispatch have
  no effect the dispatch reads; the search spaces are constants of the source passed to
  the constructors. An exception inside \<^verbatim>\<open>algo.restore\<close> is caught by the bare
  \<^verbatim>\<open>except\<close>, and the algorithm object is then as its constructor left it.
\<close>

definition tune_training ::
  "(nat \<times> 'c list) list \<Rightarrow> config \<Rightarrow> 'c tune_world \<Rightarrow>
     (error \<times> 'c tune_world) + ('c tune_world \<times> py_result)" where
  "tune_training completions config w =
     (let w1 = emit RayInit w in
      if tuning_method (tune config) = ''bohb'' then
        (let w2 = emit MakeBOHB w1
         in Inr (tune_run HyperBandForBOHB TuneBOHB 1 completions w2, ExperimentAnalysis))
      else if tuning_method (tune config) = ''hyperopt'' then
        (let w2 = emit MakeHyperOptSearch w1;
             algo = [];
             path = hyper_opt_checkpoint_dir config;
             (w3, algo1) =
               (if resume (tune config) then
                  (case algo_restore path w2 of
                     Inr (w, h) \<Rightarrow> (emit (PrintLoaded (length h)) w, h)
                   | Inl (e, w) \<Rightarrow> (emit PrintUnableToLoad w, algo))
                else (w2, algo))
         in Inr (tune_run (HyperOptFIFO path) (HyperOptSearch algo1) (n_samples (tune config))
                   completions w3, PyNone))
      else if tuning_method (tune config) = ''no_search'' then
        Inr (tune_run DefaultScheduler NoSearchAlg (n_samples (tune config)) completions w1, PyNone)
      else Inl (NotImplementedError, w1))"

text \<open>Events that save or load a checkpoint.\<close>

fun is_checkpoint_event :: "'c tune_event \<Rightarrow> bool" where
  "is_checkpoint_event (AlgoRestore path) = True"
| "is_checkpoint_event (AlgoSave path h) = True"
| "is_checkpoint_event e = False"

definition initial_tune_world :: "'c tune_world" where
  "initial_tune_world = \<lparr>files = (\<lambda>path. None), tune_trace = []\<rparr>"

text \<open>
  The world a call to \<^verbatim>\<open>training_step\<close> leaves behind, whether it returns or raises, and
  the modes of the forward passes of a trace, in order.
\<close>

definition step_world ::
  "(error \<times> ('w, 'l, 'v) world) + (('w, 'l, 'v) world \<times> 'l \<times> real) \<Rightarrow> ('w, 'l, 'v) world" where
  "step_world r = (case r of Inl (e, s) \<Rightarrow> s | Inr (s, loss, acc) \<Rightarrow> s)"

fun forward_modes :: "('l, 'v) event list \<Rightarrow> bool list" where
  "forward_modes [] = []"
| "forward_modes (Forward mode tokens # es) = mode # forward_modes es"
| "forward_modes (e # es) = forward_modes es"

text \<open>
  A small concrete instance used by the examples: the state is a counter of optimizer
  steps, a forward pass gives two output steps with two classes, the loss of a call is
  the number of labels it was given, and an evaluation returns one metric.
\<close>

definition demo_externals :: "(nat, nat, nat, real) externals" where
  "demo_externals =
     \<lparr>get_model = (\<lambda>config. (mixed_model, 0)),
      forward = (\<lambda>mode w tokens. Inr (replicate 2 (map (\<lambda>t. [real_of_int (sum_list t), 1 / 2]) tokens))),
      loss_function = (\<lambda>outputs labels. Inr (length labels)),
      zero_grad = (\<lambda>opt w. w),
      backward = (\<lambda>loss w. w),
      opt_step = (\<lambda>opt w. Suc w),
      eval_model = (\<lambda>loader mode w. Inr (mode, w, [(''accuracy'', 1 / 2)]))\<rparr>"

definition demo_optimizers :: "optimizer pyseq" where
  "demo_optimizers = PyTuple [Adam [0, 1] (1 / 1000) (9 / 10, 999 / 1000) (1 / 100000000),
                              SparseAdam [2] (1 / 1000) (9 / 10, 999 / 1000) (1 / 100000000)]"

definition demo_world :: "(nat, nat, real) world" where
  "demo_world = \<lparr>training_mode = False, weights = 0, trace = []\<rparr>"

definition demo_batch :: "int list \<times> tokens" where
  "demo_batch = ([0, 0], [[1], [0]])"

text \<open>
  The state of the two caches agrees with the log of created datasets: for each split,
  the datasets created so far are none when the global is \<^verbatim>\<open>None\<close>, and otherwise the one
  dataset the global holds.
\<close>

definition cache_inv :: "'ex globals \<Rightarrow> bool" where
  "cache_inv g \<longleftrightarrow>
     created_for ''train'' g = (case train_dataset g of None \<Rightarrow> [] | Some d \<Rightarrow> [d]) \<and>
     created_for ''test'' g = (case eval_dataset g of None \<Rightarrow> [] | Some d \<Rightarrow> [d])"

text \<open>A concrete data side for the examples: sixteen examples, numbered.\<close>

definition demo_data :: "nat data_externals" where
  "demo_data =
     \<lparr>get_datasets_paths = (\<lambda>config split. [split @ ''.csv'']),
      read_datasets = (\<lambda>paths. Inr [0, 1, 2, 3, 4, 5, 6, 7, 8, 9, 10, 11, 12, 13, 14, 15]),
      train_text_proc = (\<lambda>rows. (map (\<lambda>x. 0) rows, map (\<lambda>x. [int x]) rows)),
      eval_text_proc = (\<lambda>rows. (map (\<lambda>x. 0) rows, map (\<lambda>x. [int x]) rows)),
      permutation = (\<lambda>k rows. rev rows)\<rparr>"

definition demo_calls :: "call list" where
  "demo_calls = [GetTrain adam_config, GetEval adam_config, GetTrain adam_config]"

text \<open>The world a call of \<^verbatim>\<open>tune_training\<close> leaves behind, whether it returns or raises.\<close>

definition tune_world_of ::
  "(error \<times> 'c tune_world) + ('c tune_world \<times> py_result) \<Rightarrow> 'c tune_world" where
  "tune_world_of r = (case r of Inl (e, w) \<Rightarrow> w | Inr (w, res) \<Rightarrow> w)"

text \<open>The events a run adds for its completed trials under the \<^verbatim>\<open>HyperOptFIFO\<close> scheduler.\<close>

definition checkpointed_completions :: "string \<Rightarrow> (nat \<times> 'c list) list \<Rightarrow> 'c tune_event list" where
  "checkpointed_completions path completions =
     concat (map (\<lambda>(trial, h). [AlgoSave path h, PrintCheckpointing, SchedulerOnTrialComplete trial])
       completions)"

text \<open>
  Which configurations \<^verbatim>\<open>tune.run\<close> samples is decided inside the search library; the
  program decides the state of the algorithm it hands over. With \<^verbatim>\<open>max_concurrent=1\<close> the
  algorithm is asked for one configuration per trial: it proposes from the history it
  holds, and the proposal joins the history. The proposing function \<open>suggest\<close> is the
  library's, a parameter here.
\<close>

fun samples :: "('c list \<Rightarrow> nat \<Rightarrow> 'c) \<Rightarrow> 'c list \<Rightarrow> nat list \<Rightarrow> 'c list" where
  "samples suggest h [] = []"
| "samples suggest h (trial # trials) =
     suggest h trial # samples suggest (h @ [suggest h trial]) trials"

text \<open>The search algorithm and the number of samples of the last \<^verbatim>\<open>tune.run\<close> of a trace.\<close>

fun last_tune_run :: "'c tune_event list \<Rightarrow> ('c search_alg \<times> int) option" where
  "last_tune_run [] = None"
| "last_tune_run (e # es) =
     (case last_tune_run es of
        Some r \<Rightarrow> Some r
      | None \<Rightarrow> (case e of TuneRun sched alg n \<Rightarrow> Some (alg, n) | _ \<Rightarrow> None))"

text \<open>
  The configurations sampled in the run a trace ends with, when its search algorithm is
  \<^verbatim>\<open>HyperOptSearch\<close>: one per trial, \<^verbatim>\<open>num_samples\<close> trials, from the history handed over.
  (For the other search algorithms the sampling is not described.)
\<close>

definition run_samples :: "('c list \<Rightarrow> nat \<Rightarrow> 'c) \<Rightarrow> 'c tune_event list \<Rightarrow> 'c list" where
  "run_samples suggest tr =
     (case last_tune_run tr of
        Some (HyperOptSearch h, n) \<Rightarrow> samples suggest h [0..<nat n]
      | _ \<Rightarrow> [])"

text \<open>A proposing function for the examples: it never proposes what the history holds.\<close>

definition fresh_config :: "nat list \<Rightarrow> nat \<Rightarrow> nat" where
  "fresh_config h trial = Suc (sum_list h)"

text \<open>Concrete inputs for the examples: configurations, and a world with a checkpoint.\<close>

definition grid_config :: config where
  "grid_config = adam_config\<lparr>tune := (tune adam_config)\<lparr>tuning_method := ''grid_search''\<rparr>\<rparr>"

definition bohb_config :: config where
  "bohb_config = adam_config\<lparr>tune := (tune adam_config)\<lparr>tuning_method := ''bohb''\<rparr>\<rparr>"

definition sgd_config :: config where
  "sgd_config = adam_config\<lparr>optimizer := (optimizer adam_config)\<lparr>optimizer_name := ''sgd''\<rparr>\<rparr>"

definition checkpoint_world :: "nat tune_world" where
  "checkpoint_world =
     \<lparr>files = (\<lambda>path. if path = ''work/exp/hyperopt'' then Some [7] else None), tune_trace = []\<rparr>"

text \<open>The trace a call of \<^verbatim>\<open>normal_training\<close> leaves behind, whether it returns or raises.\<close>

definition run_trace ::
  "(error \<times> 'ex globals \<times> ('l, 'v) event list) + ('ex globals \<times> ('w, 'l, 'v) world) \<Rightarrow>
     ('l, 'v) event list" where
  "run_trace r = (case r of Inl (e, g, tr) \<Rightarrow> tr | Inr (g, s) \<Rightarrow> trace s)"

definition tiny_loader :: "nat dataloader" where
  "tiny_loader =
     \<lparr>dataset = \<lparr>dataset_id = 0, dataset_paths = [''train.csv''], examples = [3]\<rparr>,
      batch_size = 1, shuffle = False, drop_last = False, num_workers = 0,
      collate_fn = train_text_proc demo_data\<rparr>"

section \<open>Properties of \<^verbatim>\<open>get_optimizers\<close>\<close>

lemma get_optimizers_dense_only:
  assumes "optimizer_name (optimizer config) = ''adam''"
    and "get_sparse_parameters model = []"
    and "accepts (Adam (get_non_sparse_parameters model) (optimizer_lr (optimizer config))
           (optimizer_betas (optimizer config)) (optimizer_eps (optimizer config)))"
  shows "get_optimizers accepts model config =
     Inr (PyList [Adam (get_non_sparse_parameters model) (optimizer_lr (optimizer config))
           (optimizer_betas (optimizer config)) (optimizer_eps (optimizer config))])"
  using assms by (simp add: get_optimizers_def construct_def)

lemma get_optimizers_both:
  assumes "optimizer_name (optimizer config) = ''adam''"
    and "get_sparse_parameters model \<noteq> []"
    and "accepts (Adam (get_non_sparse_parameters model) (optimizer_lr (optimizer config))
           (optimizer_betas (optimizer config)) (optimizer_eps (optimizer config)))"
    and "accepts (SparseAdam (get_sparse_parameters model) (optimizer_lr (optimizer config))
           (optimizer_betas (optimizer config)) (optimizer_eps (optimizer config)))"
  shows "get_optimizers accepts model config =
     Inr (PyTuple [Adam (get_non_sparse_parameters model) (optimizer_lr (optimizer config))
           (optimizer_betas (optimizer config)) (optimizer_eps (optimizer config)),
         SparseAdam (get_sparse_parameters model) (optimizer_lr (optimizer config))
           (optimizer_betas (optimizer config)) (optimizer_eps (optimizer config))])"
  using assms by (simp add: get_optimizers_def construct_def)

lemma get_optimizers_unsupported:
  "optimizer_name (optimizer config) \<noteq> ''adam'' \<Longrightarrow>
     get_optimizers accepts model config = Inl NotImplementedError"
  by (simp add: get_optimizers_def)

text \<open>
  Claim C1, as amended. For every model whose dense parameter subset is not empty and
  whose dense and sparse subsets partition its parameters, and every configuration that
  names the optimizer \<^verbatim>\<open>'adam'\<close>, if the library accepts the constructor calls then
  \<^verbatim>\<open>get_optimizers\<close> returns the one-element list holding the dense Adam optimizer when
  the sparse subset is empty and the pair (dense Adam, sparse Adam) otherwise. The
  result then holds exactly one optimizer per non-empty subset, each bound to a non-empty
  subset; the parameters bound across the result are the model's full parameter set, and
  no parameter is bound by two optimizers.
\<close>

theorem get_optimizers_one_per_subset:
  assumes "optimizer_name (optimizer config) = ''adam''"
    and "partitioned model"
    and "get_non_sparse_parameters model \<noteq> []"
    and "accepts (Adam (get_non_sparse_parameters model) (optimizer_lr (optimizer config))
           (optimizer_betas (optimizer config)) (optimizer_eps (optimizer config)))"
    and "get_sparse_parameters model \<noteq> [] \<longrightarrow>
         accepts (SparseAdam (get_sparse_parameters model) (optimizer_lr (optimizer config))
           (optimizer_betas (optimizer config)) (optimizer_eps (optimizer config)))"
  shows "\<exists>r. get_optimizers accepts model config = Inr r \<and>
      (get_sparse_parameters model = [] \<longrightarrow>
         r = PyList [Adam (get_non_sparse_parameters model) (optimizer_lr (optimizer config))
           (optimizer_betas (optimizer config)) (optimizer_eps (optimizer config))]) \<and>
      (get_sparse_parameters model \<noteq> [] \<longrightarrow>
         r = PyTuple [Adam (get_non_sparse_parameters model) (optimizer_lr (optimizer config))
           (optimizer_betas (optimizer config)) (optimizer_eps (optimizer config)),
         SparseAdam (get_sparse_parameters model) (optimizer_lr (optimizer config))
           (optimizer_betas (optimizer config)) (optimizer_eps (optimizer config))]) \<and>
      length (items r) = nonempty_subsets model \<and>
      list_all (\<lambda>opt. bound opt \<noteq> []) (items r) \<and>
      set (concat (map bound (items r))) = set (parameters model) \<and>
      no_overlap (items r)"
proof (cases "get_sparse_parameters model = []")
  case True
  with assms have "get_optimizers accepts model config =
     Inr (PyList [Adam (get_non_sparse_parameters model) (optimizer_lr (optimizer config))
           (optimizer_betas (optimizer config)) (optimizer_eps (optimizer config))])"
    by (simp add: get_optimizers_dense_only)
  with True assms(2,3) show ?thesis
    by (simp add: nonempty_subsets_def partitioned_def)
next
  case False
  with assms have "get_optimizers accepts model config =
     Inr (PyTuple [Adam (get_non_sparse_parameters model) (optimizer_lr (optimizer config))
           (optimizer_betas (optimizer config)) (optimizer_eps (optimizer config)),
         SparseAdam (get_sparse_parameters model) (optimizer_lr (optimizer config))
           (optimizer_betas (optimizer config)) (optimizer_eps (optimizer config))])"
    by (simp add: get_optimizers_both)
  with False assms(2,3) show ?thesis
    by (simp add: nonempty_subsets_def partitioned_def)
qed

theorem get_optimizers_one_per_subset_witness:
  "get_optimizers accept_nonempty mixed_model adam_config =
     Inr (PyTuple [Adam [0, 1] (1 / 1000) (9 / 10, 999 / 1000) (1 / 100000000),
                   SparseAdam [2] (1 / 1000) (9 / 10, 999 / 1000) (1 / 100000000)]) \<and>
   partitioned mixed_model \<and> nonempty_subsets mixed_model = 2"
  using get_optimizers_one_per_subset [of adam_config mixed_model accept_nonempty]
  by (auto simp add: adam_config_def mixed_model_def accept_nonempty_def partitioned_def
      nonempty_subsets_def)

text \<open>
  Claim C1 as stated fails on a model whose dense subset is empty: the dense optimizer
  is built whatever the subset holds. A library that accepts the call gives two
  optimizers for the one non-empty subset; a library that rejects an empty parameter
  list makes the call raise.
\<close>

theorem get_optimizers_empty_dense_counterexample:
  "optimizer_name (optimizer adam_config) = ''adam'' \<and>
   partitioned sparse_only_model \<and>
   nonempty_subsets sparse_only_model = 1 \<and>
   get_optimizers accept_all sparse_only_model adam_config =
     Inr (PyTuple [Adam [] (1 / 1000) (9 / 10, 999 / 1000) (1 / 100000000),
                   SparseAdam [2] (1 / 1000) (9 / 10, 999 / 1000) (1 / 100000000)]) \<and>
   get_optimizers accept_nonempty sparse_only_model adam_config = Inl ValueError"
  by (simp add: get_optimizers_def construct_def adam_config_def sparse_only_model_def
      accept_all_def accept_nonempty_def partitioned_def nonempty_subsets_def)

section \<open>Properties of \<^verbatim>\<open>training_step\<close>\<close>

lemma trace_record_event: "trace (record_event e s) = trace s @ [e]"
  by (simp add: record_event_def)

lemma mode_record_event: "training_mode (record_event e s) = training_mode s"
  by (simp add: record_event_def)

lemma weights_record_event: "weights (record_event e s) = weights s"
  by (simp add: record_event_def)

lemma fold_zero_grad:
  "trace (fold (opt_zero_grad X) opts s) = trace s @ map ZeroGrad opts \<and>
   training_mode (fold (opt_zero_grad X) opts s) = training_mode s \<and>
   weights (fold (opt_zero_grad X) opts s) = fold (zero_grad X) opts (weights s)"
  by (induction opts arbitrary: s) (simp_all add: opt_zero_grad_def record_event_def)

lemma fold_opt_step:
  "trace (fold (opt_step_call X) opts s) = trace s @ map OptStep opts \<and>
   training_mode (fold (opt_step_call X) opts s) = training_mode s \<and>
   weights (fold (opt_step_call X) opts s) = fold (opt_step X) opts (weights s)"
  by (induction opts arbitrary: s) (simp_all add: opt_step_call_def record_event_def)

lemma chosen_labels_Inr:
  "chosen_labels outputs = Inr chosen \<Longrightarrow>
     outputs \<noteq> [] \<and> (\<forall>row \<in> set (last outputs). row \<noteq> []) \<and>
     chosen = map (\<lambda>row. int (argmax row)) (last outputs)"
  by (auto simp add: chosen_labels_def list_ex_iff split: if_splits)

text \<open>What a call of \<^verbatim>\<open>training_step\<close> that returns has done.\<close>

lemma training_step_Inr:
  assumes "training_step X (labels, tokens) optimizers s = Inr (s', loss, acc)"
  shows "\<exists>outputs agree selected.
     forward X True (fold (zero_grad X) (items optimizers) (weights s)) tokens = Inr outputs \<and>
     outputs \<noteq> [] \<and> (\<forall>row \<in> set (last outputs). row \<noteq> []) \<and> labels \<noteq> [] \<and>
     tensor_eq (map (\<lambda>row. int (argmax row)) (last outputs)) labels = Inr agree \<and>
     masked_select (map (\<lambda>row. int (argmax row)) (last outputs)) agree = Inr selected \<and>
     acc = real (length selected) / real (length labels) \<and>
     loss_function X (concat outputs) (concat (replicate (length outputs) labels)) = Inr loss \<and>
     trace s' = trace s @ ModelTrain # map ZeroGrad (items optimizers) @
        [Forward True tokens, LossFunc (concat outputs) (concat (replicate (length outputs) labels)),
         Backward loss] @ map OptStep (items optimizers) \<and>
     training_mode s' = True \<and>
     weights s' = fold (opt_step X) (items optimizers)
        (backward X loss (fold (zero_grad X) (items optimizers) (weights s)))"
proof -
  let ?s2 = "fold (opt_zero_grad X) (items optimizers) (model_train s)"
  have s2: "trace ?s2 = trace s @ ModelTrain # map ZeroGrad (items optimizers)"
    "training_mode ?s2 = True"
    "weights ?s2 = fold (zero_grad X) (items optimizers) (weights s)"
    by (simp_all add: fold_zero_grad model_train_def record_event_def)
  from assms obtain outputs where
    fw: "forward X True (fold (zero_grad X) (items optimizers) (weights s)) tokens = Inr outputs"
    by (cases "forward X True (fold (zero_grad X) (items optimizers) (weights s)) tokens")
      (simp_all add: training_step_def Let_def model_call_def s2)
  from assms fw obtain chosen where ch: "chosen_labels outputs = Inr chosen"
    by (cases "chosen_labels outputs")
      (simp_all add: training_step_def Let_def model_call_def s2)
  note cl = chosen_labels_Inr [OF ch]
  from assms fw ch obtain agree where te: "tensor_eq chosen labels = Inr agree"
    by (cases "tensor_eq chosen labels")
      (simp_all add: training_step_def Let_def model_call_def s2)
  from assms fw ch te obtain selected where ms: "masked_select chosen agree = Inr selected"
    by (cases "masked_select chosen agree")
      (simp_all add: training_step_def Let_def model_call_def s2)
  from assms fw ch te ms have ne: "labels \<noteq> []"
    by (auto simp add: training_step_def Let_def model_call_def s2 split: if_splits)
  from assms fw ch te ms ne obtain l where
    lf: "loss_function X (concat outputs) (concat (replicate (length outputs) labels)) = Inr l"
    by (cases "loss_function X (concat outputs) (concat (replicate (length outputs) labels))")
      (simp_all add: training_step_def Let_def model_call_def loss_call_def s2)
  from assms fw ch te ms ne lf have
    "loss = l"
    "acc = real (length selected) / real (length labels)"
    "s' = fold (opt_step_call X) (items optimizers)
            (loss_backward X l (record_event
               (LossFunc (concat outputs) (concat (replicate (length outputs) labels)))
               (record_event (Forward True tokens) ?s2)))"
    by (auto simp add: training_step_def Let_def model_call_def loss_call_def s2)
  with fw cl te ms ne lf s2 show ?thesis
    by (simp add: fold_opt_step loss_backward_def record_event_def)
qed

text \<open>
  And it does return on a batch of the right shape: outputs with at least one step, one
  non-empty row of scores per label in the last step, at least one label, and a loss
  function that accepts its arguments.
\<close>

lemma training_step_returns:
  assumes "forward X True (fold (zero_grad X) (items optimizers) (weights s)) tokens = Inr outputs"
    and "outputs \<noteq> []" and "\<forall>row \<in> set (last outputs). row \<noteq> []"
    and "length (last outputs) = length labels" and "labels \<noteq> []"
    and "loss_function X (concat outputs) (concat (replicate (length outputs) labels)) = Inr loss"
  shows "\<exists>s' acc. training_step X (labels, tokens) optimizers s = Inr (s', loss, acc)"
  using assms
  by (simp add: training_step_def Let_def model_call_def loss_call_def model_train_def
      chosen_labels_def tensor_eq_def masked_select_def list_ex_iff fold_zero_grad
      mode_record_event weights_record_event)

text \<open>
  It also returns when a single label meets any number of rows: the label is compared
  with every row, and the count of agreeing rows is divided by one.
\<close>

lemma training_step_broadcast:
  assumes "training_step X ([label], tokens) optimizers s = Inr (s', loss, acc)"
    and "forward X True (fold (zero_grad X) (items optimizers) (weights s)) tokens = Inr outputs"
  shows "acc = real (length (filter (\<lambda>row. int (argmax row) = label) (last outputs)))"
proof -
  define cs where "cs = map (\<lambda>row. int (argmax row)) (last outputs)"
  from training_step_Inr [OF assms(1)] assms(2) obtain agree selected where
    te: "tensor_eq cs [label] = Inr agree"
    and ms: "masked_select cs agree = Inr selected"
    and acc: "acc = real (length selected) / real (length [label])"
    unfolding cs_def by auto
  have m: "agree = map (\<lambda>c. c = label) cs"
    using te by (auto simp add: tensor_eq_def length_Suc_conv split: if_splits)
  have count: "length (filter snd (zip xs (map (\<lambda>c. c = label) xs))) =
        length (filter (\<lambda>c. c = label) xs)" for xs :: "int list"
    by (induction xs) simp_all
  from ms have "selected = map fst (filter snd (zip cs agree))"
    by (auto simp add: masked_select_def split: if_splits)
  then have "length selected = length (filter (\<lambda>c. c = label) cs)"
    unfolding m by (simp only: length_map count)
  also have "\<dots> = length (filter (\<lambda>row. int (argmax row) = label) (last outputs))"
    unfolding cs_def by (simp add: filter_map comp_def)
  finally show ?thesis using acc by simp
qed

text \<open>
  \<open>argmax\<close> is what its name says: an index of the row, at a greatest score, and the
  first such index.
\<close>

lemma argmax_less: "xs \<noteq> [] \<Longrightarrow> argmax xs < length xs"
  by (induction xs rule: argmax.induct) (auto simp add: Let_def)

lemma argmax_greatest: "x \<in> set xs \<Longrightarrow> x \<le> xs ! argmax xs"
proof (induction xs arbitrary: x rule: argmax.induct)
  case 1
  then show ?case by simp
next
  case (2 y)
  then show ?case by simp
next
  case (3 a b bs)
  show ?case
  proof (cases "(b # bs) ! argmax (b # bs) \<le> a")
    case True
    from "3.prems" have "x = a \<or> x \<in> set (b # bs)" by simp
    then show ?thesis
    proof
      assume "x = a"
      with True show ?thesis by simp
    next
      assume "x \<in> set (b # bs)"
      then have "x \<le> (b # bs) ! argmax (b # bs)" by (rule "3.IH")
      with True show ?thesis by simp
    qed
  next
    case False
    from "3.prems" have "x = a \<or> x \<in> set (b # bs)" by simp
    then show ?thesis
    proof
      assume "x = a"
      with False show ?thesis by simp
    next
      assume "x \<in> set (b # bs)"
      then have "x \<le> (b # bs) ! argmax (b # bs)" by (rule "3.IH")
      with False show ?thesis by simp
    qed
  qed
qed

lemma argmax_first: "j < argmax xs \<Longrightarrow> xs ! j < xs ! argmax xs"
proof (induction xs arbitrary: j rule: argmax.induct)
  case 1
  then show ?case by simp
next
  case (2 y)
  then show ?case by simp
next
  case (3 a b bs)
  then show ?case
    by (cases j) (auto simp add: Let_def split: if_splits)
qed

text \<open>
  On vectors of one length, the selected entries are as many as the positions at which
  the vectors agree, and no more than there are positions.
\<close>

lemma selected_card:
  assumes "length xs = length ys"
    and "tensor_eq xs ys = Inr agree" and "masked_select xs agree = Inr selected"
  shows "length selected = card {i. i < length ys \<and> xs ! i = ys ! i}"
proof -
  from assms(1,2) have m: "agree = map (\<lambda>(x, y). x = y) (zip xs ys)"
    by (simp add: tensor_eq_def)
  with assms(1,3) have "selected = map fst (filter snd (zip xs agree))"
    by (simp add: masked_select_def)
  then have "length selected = card {i. i < length (zip xs agree) \<and> snd (zip xs agree ! i)}"
    by (simp add: length_filter_conv_card)
  also have "{i. i < length (zip xs agree) \<and> snd (zip xs agree ! i)} =
             {i. i < length ys \<and> xs ! i = ys ! i}"
    using assms(1) by (auto simp add: m)
  finally show ?thesis .
qed

lemma selected_le:
  assumes "masked_select xs agree = Inr selected"
  shows "length selected \<le> length xs"
proof -
  from assms have "selected = map fst (filter snd (zip xs agree))" and "length agree = length xs"
    by (auto simp add: masked_select_def split: if_splits)
  then have "length selected = length (filter snd (zip xs agree))" by simp
  also have "\<dots> \<le> length (zip xs agree)" by (rule length_filter_le)
  finally show ?thesis using \<open>length agree = length xs\<close> by simp
qed

text \<open>Flattening a rectangular list of rows, and repeating a vector: where the entries go.\<close>

lemma length_concat_rect:
  "\<forall>xs \<in> set xss. length xs = n \<Longrightarrow> length (concat xss) = length xss * n"
  by (induction xss) simp_all

lemma concat_nth_rect:
  "\<forall>xs \<in> set xss. length xs = n \<Longrightarrow> t < length xss \<Longrightarrow> b < n \<Longrightarrow>
     concat xss ! (t * n + b) = xss ! t ! b"
proof (induction xss arbitrary: t)
  case Nil
  then show ?case by simp
next
  case (Cons xs xss)
  show ?case
  proof (cases t)
    case 0
    with Cons.prems show ?thesis by (simp add: nth_append)
  next
    case (Suc k)
    with Cons.prems have "concat xss ! (k * n + b) = xss ! k ! b"
      by (intro Cons.IH) simp_all
    moreover from Cons.prems have "length xs = n" by simp
    ultimately show ?thesis using Suc by (simp add: nth_append)
  qed
qed

lemma repeat_nth:
  "t < k \<Longrightarrow> b < length ys \<Longrightarrow> concat (replicate k ys) ! (t * length ys + b) = ys ! b"
  using concat_nth_rect [of "replicate k ys" "length ys" t b] by simp

lemma forward_modes_append: "forward_modes (xs @ ys) = forward_modes xs @ forward_modes ys"
proof (induction xs)
  case Nil
  then show ?case by simp
next
  case (Cons e es)
  then show ?case by (cases e) simp_all
qed

lemma forward_modes_zero_grad: "forward_modes (map ZeroGrad opts) = []"
  by (induction opts) simp_all

lemma forward_modes_opt_step: "forward_modes (map OptStep opts) = []"
  by (induction opts) simp_all

lemma demo_training_step:
  "training_step demo_externals demo_batch demo_optimizers demo_world =
     Inr (\<lparr>training_mode = True, weights = 2,
           trace = [ModelTrain,
             ZeroGrad (Adam [0, 1] (1 / 1000) (9 / 10, 999 / 1000) (1 / 100000000)),
             ZeroGrad (SparseAdam [2] (1 / 1000) (9 / 10, 999 / 1000) (1 / 100000000)),
             Forward True [[1], [0]],
             LossFunc [[1, 1 / 2], [0, 1 / 2], [1, 1 / 2], [0, 1 / 2]] [0, 0, 0, 0],
             Backward 4,
             OptStep (Adam [0, 1] (1 / 1000) (9 / 10, 999 / 1000) (1 / 100000000)),
             OptStep (SparseAdam [2] (1 / 1000) (9 / 10, 999 / 1000) (1 / 100000000))]\<rparr>,
          4, 1 / 2)"
  by (simp add: training_step_def demo_externals_def demo_batch_def demo_optimizers_def
      demo_world_def model_train_def opt_zero_grad_def model_call_def loss_call_def
      loss_backward_def opt_step_call_def record_event_def chosen_labels_def tensor_eq_def masked_select_def
      numeral_2_eq_2)

text \<open>
  Claim C2, as amended. For every training batch whose label vector has one label per
  row of the final output step, and on which \<^verbatim>\<open>training_step\<close> returns, the accuracy it
  returns lies between 0 and 1 and is the number of positions of the batch at which the
  argmax over the classes of the last output step is the label, divided by the number of
  labels. (The quotient is the exact one; Python returns the nearest float.)
\<close>

theorem training_step_accuracy:
  assumes "training_step X (labels, tokens) optimizers s = Inr (s', loss, acc)"
    and "forward X True (fold (zero_grad X) (items optimizers) (weights s)) tokens = Inr outputs"
    and "length (last outputs) = length labels"
  shows "0 \<le> acc \<and> acc \<le> 1 \<and> outputs \<noteq> [] \<and>
     acc = real (card {i. i < length labels \<and> int (argmax (last outputs ! i)) = labels ! i}) /
           real (length labels)"
proof -
  let ?chosen = "map (\<lambda>row. int (argmax row)) (last outputs)"
  from training_step_Inr [OF assms(1)] assms(2) obtain agree selected where
    ne: "outputs \<noteq> []"
    and labels: "labels \<noteq> []"
    and te: "tensor_eq ?chosen labels = Inr agree"
    and ms: "masked_select ?chosen agree = Inr selected"
    and acc: "acc = real (length selected) / real (length labels)"
    by auto
  have len: "length ?chosen = length labels" using assms(3) by simp
  have pos: "0 < real (length labels)" using labels by simp
  from selected_le [OF ms] len have "length selected \<le> length labels" by simp
  then have le: "real (length selected) \<le> real (length labels)" by simp
  have lower: "0 \<le> acc" unfolding acc by simp
  have upper: "acc \<le> 1" unfolding acc using le pos by simp
  have "length selected = card {i. i < length labels \<and> ?chosen ! i = labels ! i}"
    using len te ms by (rule selected_card)
  also have "{i. i < length labels \<and> ?chosen ! i = labels ! i} =
             {i. i < length labels \<and> int (argmax (last outputs ! i)) = labels ! i}"
    using assms(3) by auto
  finally have "acc = real (card {i. i < length labels \<and> int (argmax (last outputs ! i)) = labels ! i}) /
                      real (length labels)"
    using acc by simp
  with lower upper ne show ?thesis by blast
qed

theorem training_step_accuracy_witness:
  "training_step demo_externals ([0, 0], [[1], [0]]) demo_optimizers demo_world =
     Inr (\<lparr>training_mode = True, weights = 2,
           trace = [ModelTrain,
             ZeroGrad (Adam [0, 1] (1 / 1000) (9 / 10, 999 / 1000) (1 / 100000000)),
             ZeroGrad (SparseAdam [2] (1 / 1000) (9 / 10, 999 / 1000) (1 / 100000000)),
             Forward True [[1], [0]],
             LossFunc [[1, 1 / 2], [0, 1 / 2], [1, 1 / 2], [0, 1 / 2]] [0, 0, 0, 0],
             Backward 4,
             OptStep (Adam [0, 1] (1 / 1000) (9 / 10, 999 / 1000) (1 / 100000000)),
             OptStep (SparseAdam [2] (1 / 1000) (9 / 10, 999 / 1000) (1 / 100000000))]\<rparr>,
          4, 1 / 2) \<and>
   forward demo_externals True
     (fold (zero_grad demo_externals) (items demo_optimizers) (weights demo_world)) [[1], [0]] =
     Inr [[[1, 1 / 2], [0, 1 / 2]], [[1, 1 / 2], [0, 1 / 2]]] \<and>
   (0::real) \<le> 1 / 2 \<and> (1::real) / 2 \<le> 1"
proof -
  have fw: "forward demo_externals True
     (fold (zero_grad demo_externals) (items demo_optimizers) (weights demo_world)) [[1], [0]] =
     Inr [[[1, 1 / 2], [0, 1 / 2]], [[1, 1 / 2], [0, 1 / 2]]]"
    by (simp add: demo_externals_def numeral_2_eq_2)
  have len: "length (last [[[1, 1 / 2], [0, 1 / 2]], [[1, 1 / 2], [0, 1 / 2 :: real]]]) =
      length [0, 0 :: int]"
    by simp
  from training_step_accuracy [OF demo_training_step [unfolded demo_batch_def] fw len]
    demo_training_step fw
  show ?thesis by (simp add: demo_batch_def)
qed

text \<open>
  Claim C2 as stated fails on a batch with one label and two rows: the source does not
  check that the two lengths agree, the single label is compared with both rows, and the
  count of two agreeing rows is divided by the one label. The step returns the accuracy
  2 whenever the loss function it was given accepts its arguments.
\<close>

theorem training_step_accuracy_counterexample:
  "training_step demo_externals ([0], [[1], [1]]) demo_optimizers demo_world =
     Inr (\<lparr>training_mode = True, weights = 2,
           trace = [ModelTrain,
             ZeroGrad (Adam [0, 1] (1 / 1000) (9 / 10, 999 / 1000) (1 / 100000000)),
             ZeroGrad (SparseAdam [2] (1 / 1000) (9 / 10, 999 / 1000) (1 / 100000000)),
             Forward True [[1], [1]],
             LossFunc [[1, 1 / 2], [1, 1 / 2], [1, 1 / 2], [1, 1 / 2]] [0, 0],
             Backward 2,
             OptStep (Adam [0, 1] (1 / 1000) (9 / 10, 999 / 1000) (1 / 100000000)),
             OptStep (SparseAdam [2] (1 / 1000) (9 / 10, 999 / 1000) (1 / 100000000))]\<rparr>,
          2, 2) \<and>
   (1::real) < 2"
  by (simp add: training_step_def demo_externals_def demo_optimizers_def
      demo_world_def model_train_def opt_zero_grad_def model_call_def loss_call_def
      loss_backward_def opt_step_call_def record_event_def chosen_labels_def tensor_eq_def
      masked_select_def numeral_2_eq_2)

text \<open>
  Claim C3. A call of \<^verbatim>\<open>training_step\<close> that returns has made exactly these calls, in
  this order: \<^verbatim>\<open>model.train()\<close>; \<^verbatim>\<open>zero_grad()\<close> on every optimizer of the group; one
  forward pass on the batch's tokens; one call of the loss function, on the outputs
  flattened to (steps * batch) rows and the label vector repeated once per output step;
  one \<^verbatim>\<open>backward()\<close> on that loss; \<^verbatim>\<open>step()\<close> on every optimizer of the group. When the
  outputs are rectangular (every step has one row per label), row \<open>t * batch + b\<close> of the
  flattened outputs is the row of position \<open>b\<close> at step \<open>t\<close> and its label is the label of
  position \<open>b\<close>: each label supervises every step.
\<close>

theorem training_step_algorithm:
  assumes "training_step X (labels, tokens) optimizers s = Inr (s', loss, acc)"
  shows "\<exists>outputs.
     forward X True (fold (zero_grad X) (items optimizers) (weights s)) tokens = Inr outputs \<and>
     loss_function X (concat outputs) (concat (replicate (length outputs) labels)) = Inr loss \<and>
     trace s' = trace s @ ModelTrain # map ZeroGrad (items optimizers) @
        [Forward True tokens,
         LossFunc (concat outputs) (concat (replicate (length outputs) labels)),
         Backward loss] @ map OptStep (items optimizers) \<and>
     weights s' = fold (opt_step X) (items optimizers)
        (backward X loss (fold (zero_grad X) (items optimizers) (weights s))) \<and>
     ((\<forall>step \<in> set outputs. length step = length labels) \<longrightarrow>
        length (concat outputs) = length outputs * length labels \<and>
        length (concat (replicate (length outputs) labels)) = length outputs * length labels \<and>
        (\<forall>t < length outputs. \<forall>b < length labels.
           concat outputs ! (t * length labels + b) = outputs ! t ! b \<and>
           concat (replicate (length outputs) labels) ! (t * length labels + b) = labels ! b))"
proof -
  from training_step_Inr [OF assms] obtain outputs where
    fw: "forward X True (fold (zero_grad X) (items optimizers) (weights s)) tokens = Inr outputs"
    and loss: "loss_function X (concat outputs) (concat (replicate (length outputs) labels)) = Inr loss"
    and tr: "trace s' = trace s @ ModelTrain # map ZeroGrad (items optimizers) @
        [Forward True tokens,
         LossFunc (concat outputs) (concat (replicate (length outputs) labels)),
         Backward loss] @ map OptStep (items optimizers)"
    and w: "weights s' = fold (opt_step X) (items optimizers)
        (backward X loss (fold (zero_grad X) (items optimizers) (weights s)))"
    by blast
  have rect: "length (concat outputs) = length outputs * length labels \<and>
        length (concat (replicate (length outputs) labels)) = length outputs * length labels \<and>
        (\<forall>t < length outputs. \<forall>b < length labels.
           concat outputs ! (t * length labels + b) = outputs ! t ! b \<and>
           concat (replicate (length outputs) labels) ! (t * length labels + b) = labels ! b)"
    if r: "\<forall>step \<in> set outputs. length step = length labels"
  proof (intro conjI allI impI)
    show "length (concat outputs) = length outputs * length labels"
      using r by (rule length_concat_rect)
    show "length (concat (replicate (length outputs) labels)) = length outputs * length labels"
      using length_concat_rect [of "replicate (length outputs) labels" "length labels"] by simp
  next
    fix t b
    assume t: "t < length outputs" and b: "b < length labels"
    show "concat outputs ! (t * length labels + b) = outputs ! t ! b"
      using r t b by (rule concat_nth_rect)
    show "concat (replicate (length outputs) labels) ! (t * length labels + b) = labels ! b"
      using t b by (rule repeat_nth)
  qed
  from fw loss tr w rect show ?thesis by blast
qed

theorem training_step_algorithm_witness:
  "training_step demo_externals ([0, 0], [[1], [0]]) demo_optimizers demo_world =
     Inr (\<lparr>training_mode = True, weights = 2,
           trace = [ModelTrain,
             ZeroGrad (Adam [0, 1] (1 / 1000) (9 / 10, 999 / 1000) (1 / 100000000)),
             ZeroGrad (SparseAdam [2] (1 / 1000) (9 / 10, 999 / 1000) (1 / 100000000)),
             Forward True [[1], [0]],
             LossFunc [[1, 1 / 2], [0, 1 / 2], [1, 1 / 2], [0, 1 / 2]] [0, 0, 0, 0],
             Backward 4,
             OptStep (Adam [0, 1] (1 / 1000) (9 / 10, 999 / 1000) (1 / 100000000)),
             OptStep (SparseAdam [2] (1 / 1000) (9 / 10, 999 / 1000) (1 / 100000000))]\<rparr>,
          4, 1 / 2)"
  using demo_training_step
    training_step_algorithm [OF demo_training_step [unfolded demo_batch_def]]
  by (simp add: demo_batch_def)

text \<open>
  Claim C10. \<^verbatim>\<open>training_step\<close> does not depend on the mode the model was left in: it
  gives the same result from a model in evaluation mode as from one in training mode, its
  forward pass runs in training mode, and the model is in training mode afterwards.
\<close>

theorem training_step_sets_training_mode:
  "training_step X batch optimizers (s\<lparr>training_mode := mode\<rparr>) =
     training_step X batch optimizers (s\<lparr>training_mode := True\<rparr>) \<and>
   training_mode (step_world (training_step X batch optimizers s)) = True \<and>
   forward_modes (trace (step_world (training_step X batch optimizers s))) =
     forward_modes (trace s) @ [True]"
proof (intro conjI)
  show "training_step X batch optimizers (s\<lparr>training_mode := mode\<rparr>) =
     training_step X batch optimizers (s\<lparr>training_mode := True\<rparr>)"
    by (simp add: training_step_def model_train_def)
  show "training_mode (step_world (training_step X batch optimizers s)) = True"
    by (simp add: training_step_def step_world_def Let_def model_call_def loss_call_def
        model_train_def loss_backward_def fold_zero_grad fold_opt_step mode_record_event
        split: sum.splits prod.splits)
  show "forward_modes (trace (step_world (training_step X batch optimizers s))) =
     forward_modes (trace s) @ [True]"
    by (simp add: training_step_def step_world_def Let_def model_call_def loss_call_def
        model_train_def loss_backward_def fold_zero_grad fold_opt_step mode_record_event
        trace_record_event forward_modes_append forward_modes_zero_grad forward_modes_opt_step
        split: sum.splits prod.splits)
qed

theorem training_step_sets_training_mode_witness:
  "training_step demo_externals demo_batch demo_optimizers (demo_world\<lparr>training_mode := False\<rparr>) =
     training_step demo_externals demo_batch demo_optimizers (demo_world\<lparr>training_mode := True\<rparr>) \<and>
   training_mode (step_world (training_step demo_externals demo_batch demo_optimizers demo_world)) = True \<and>
   forward_modes (trace (step_world (training_step demo_externals demo_batch demo_optimizers demo_world))) =
     [True]"
proof -
  have "trace demo_world = []" by (simp add: demo_world_def)
  with training_step_sets_training_mode [where X = demo_externals and batch = demo_batch
      and optimizers = demo_optimizers and s = demo_world and mode = False]
  show ?thesis by simp
qed

section \<open>Properties of the dataset caches\<close>

lemma cache_inv_initial: "cache_inv initial_globals"
  by (simp add: cache_inv_def initial_globals_def created_for_def)

lemma created_for_append:
  "created_for split (g\<lparr>created := created g @ [(s, d)]\<rparr>) =
     created_for split g @ (if s = split then [d] else [])"
  by (simp add: created_for_def)

lemma created_for_train_dataset_update [simp]:
  "created_for split (g\<lparr>train_dataset := x\<rparr>) = created_for split g"
  by (simp add: created_for_def)

lemma created_for_eval_dataset_update [simp]:
  "created_for split (g\<lparr>eval_dataset := x\<rparr>) = created_for split g"
  by (simp add: created_for_def)

text \<open>What one call does to the caches, by the state of the split's global.\<close>

lemma get_train_dataloader_cached:
  "train_dataset g = Some d \<Longrightarrow>
     globals_after (get_train_dataloader DX config tr g) = g \<and>
     (\<forall>g1 loader. get_train_dataloader DX config tr g = Inr (g1, loader) \<longrightarrow> dataset loader = d)"
  by (auto simp add: get_train_dataloader_def globals_after_def DataLoader_def
      split: sum.splits prod.splits if_splits)

lemma get_eval_dataloader_cached:
  "eval_dataset g = Some d \<Longrightarrow>
     globals_after (get_eval_dataloader DX config tr g) = g \<and>
     (\<forall>g1 loader. get_eval_dataloader DX config tr g = Inr (g1, loader) \<longrightarrow> dataset loader = d)"
  by (auto simp add: get_eval_dataloader_def globals_after_def DataLoader_def
      split: sum.splits prod.splits if_splits)

lemma get_train_dataloader_inv:
  assumes "cache_inv g"
  shows "cache_inv (globals_after (get_train_dataloader DX config tr g))"
  using assms
  by (auto simp add: get_train_dataloader_def globals_after_def DataLoader_def
      CSVDatasetsMerger_def cache_inv_def created_for_append Let_def
      split: sum.splits prod.splits if_splits option.splits)

lemma get_eval_dataloader_inv:
  assumes "cache_inv g"
  shows "cache_inv (globals_after (get_eval_dataloader DX config tr g))"
  using assms
  by (auto simp add: get_eval_dataloader_def globals_after_def DataLoader_def
      CSVDatasetsMerger_def cache_inv_def created_for_append Let_def
      split: sum.splits prod.splits if_splits option.splits)

lemma do_call_inv: "cache_inv g \<Longrightarrow> cache_inv (globals_after (do_call DX c g))"
  by (cases c) (simp_all add: get_train_dataloader_inv get_eval_dataloader_inv)

text \<open>A loader that a call returns holds the one dataset created for its split.\<close>

lemma get_train_dataloader_loader:
  assumes "cache_inv g" and "get_train_dataloader DX config tr g = Inr (g1, loader)"
  shows "created_for ''train'' g1 = [dataset loader]"
  using assms
  by (auto simp add: get_train_dataloader_def DataLoader_def
      CSVDatasetsMerger_def cache_inv_def created_for_append Let_def
      split: sum.splits prod.splits if_splits option.splits)

lemma get_eval_dataloader_loader:
  assumes "cache_inv g" and "get_eval_dataloader DX config tr g = Inr (g1, loader)"
  shows "created_for ''test'' g1 = [dataset loader]"
  using assms
  by (auto simp add: get_eval_dataloader_def DataLoader_def
      CSVDatasetsMerger_def cache_inv_def created_for_append Let_def
      split: sum.splits prod.splits if_splits option.splits)

lemma do_call_loader:
  "cache_inv g \<Longrightarrow> do_call DX c g = Inr (g1, loader) \<Longrightarrow>
     created_for (call_split c) g1 = [dataset loader]"
  by (cases c) (simp_all add: call_split_def get_train_dataloader_loader get_eval_dataloader_loader)

text \<open>Once a split has its dataset, no call creates another for it.\<close>

lemma get_train_dataloader_keeps:
  assumes "cache_inv g" and "created_for split g = [d]"
  shows "created_for split (globals_after (get_train_dataloader DX config tr g)) = [d]"
  using assms
  by (auto simp add: get_train_dataloader_def globals_after_def DataLoader_def
      CSVDatasetsMerger_def cache_inv_def created_for_append Let_def
      split: sum.splits prod.splits if_splits option.splits)

lemma get_eval_dataloader_keeps:
  assumes "cache_inv g" and "created_for split g = [d]"
  shows "created_for split (globals_after (get_eval_dataloader DX config tr g)) = [d]"
  using assms
  by (auto simp add: get_eval_dataloader_def globals_after_def DataLoader_def
      CSVDatasetsMerger_def cache_inv_def created_for_append Let_def
      split: sum.splits prod.splits if_splits option.splits)

lemma do_call_keeps:
  "cache_inv g \<Longrightarrow> created_for split g = [d] \<Longrightarrow>
     created_for split (globals_after (do_call DX c g)) = [d]"
  by (cases c) (simp_all add: get_train_dataloader_keeps get_eval_dataloader_keeps)

lemma fst_run_calls_Cons:
  "fst (run_calls DX (c # cs) g) = fst (run_calls DX cs (globals_after (do_call DX c g)))"
  by (simp add: globals_after_def split: sum.splits prod.splits)

lemma snd_run_calls_Cons:
  "snd (run_calls DX (c # cs) g) =
     (case do_call DX c g of Inl err \<Rightarrow> [] | Inr (g1, loader) \<Rightarrow> [(call_split c, loader)]) @
     snd (run_calls DX cs (globals_after (do_call DX c g)))"
  by (simp add: globals_after_def split: sum.splits prod.splits)

lemma run_calls_inv: "cache_inv g \<Longrightarrow> cache_inv (fst (run_calls DX cs g))"
proof (induction cs arbitrary: g)
  case Nil
  then show ?case by simp
next
  case (Cons c cs)
  from Cons.prems have "cache_inv (globals_after (do_call DX c g))" by (rule do_call_inv)
  then have "cache_inv (fst (run_calls DX cs (globals_after (do_call DX c g))))" by (rule Cons.IH)
  then show ?case by (simp only: fst_run_calls_Cons)
qed

lemma run_calls_keeps:
  "cache_inv g \<Longrightarrow> created_for split g = [d] \<Longrightarrow> created_for split (fst (run_calls DX cs g)) = [d]"
proof (induction cs arbitrary: g)
  case Nil
  then show ?case by simp
next
  case (Cons c cs)
  let ?g1 = "globals_after (do_call DX c g)"
  from Cons.prems have "cache_inv ?g1" by (simp add: do_call_inv)
  moreover from Cons.prems have "created_for split ?g1 = [d]" by (simp add: do_call_keeps)
  ultimately have "created_for split (fst (run_calls DX cs ?g1)) = [d]" by (rule Cons.IH)
  then show ?case by (simp only: fst_run_calls_Cons)
qed

lemma run_calls_loaders:
  "cache_inv g \<Longrightarrow> (split, loader) \<in> set (snd (run_calls DX cs g)) \<Longrightarrow>
     created_for split (fst (run_calls DX cs g)) = [dataset loader]"
proof (induction cs arbitrary: g)
  case Nil
  then show ?case by simp
next
  case (Cons c cs)
  let ?g1 = "globals_after (do_call DX c g)"
  from Cons.prems(1) have inv1: "cache_inv ?g1" by (rule do_call_inv)
  have fst_eq: "fst (run_calls DX (c # cs) g) = fst (run_calls DX cs ?g1)"
    by (rule fst_run_calls_Cons)
  have "(split, loader) \<in> set (snd (run_calls DX (c # cs) g))" by (rule Cons.prems(2))
  then have "(\<exists>g'. do_call DX c g = Inr (g', loader) \<and> split = call_split c) \<or>
      (split, loader) \<in> set (snd (run_calls DX cs ?g1))"
    unfolding snd_run_calls_Cons by (cases "do_call DX c g") auto
  then consider
      (here) g' where "do_call DX c g = Inr (g', loader)" and "split = call_split c"
    | (later) "(split, loader) \<in> set (snd (run_calls DX cs ?g1))"
    by blast
  then show ?case
  proof cases
    case here
    with Cons.prems(1) have "created_for split g' = [dataset loader]"
      by (simp add: do_call_loader)
    moreover from here have "?g1 = g'" by (simp add: globals_after_def)
    ultimately have "created_for split (fst (run_calls DX cs ?g1)) = [dataset loader]"
      using inv1 by (simp add: run_calls_keeps)
    with fst_eq show ?thesis by simp
  next
    case later
    with inv1 have "created_for split (fst (run_calls DX cs ?g1)) = [dataset loader]"
      by (rule Cons.IH)
    with fst_eq show ?thesis by simp
  qed
qed

lemma cache_inv_at_most_one:
  "cache_inv g \<Longrightarrow> length (created_for ''train'' g) \<le> 1 \<and> length (created_for ''test'' g) \<le> 1"
  by (simp add: cache_inv_def split: option.splits)

text \<open>
  Claim C8. In one process, whatever calls to \<^verbatim>\<open>get_train_dataloader\<close> and
  \<^verbatim>\<open>get_eval_dataloader\<close> are made from the state in which the module is loaded, at most
  one dataset object is ever created for each split, and every loader a call returns
  holds that one object: the first call that builds the split's dataset stores it, and
  every later call reuses it.
\<close>

theorem one_dataset_per_split:
  assumes "run_calls DX calls initial_globals = (g, loaders)"
  shows "length (created_for ''train'' g) \<le> 1 \<and> length (created_for ''test'' g) \<le> 1 \<and>
     (\<forall>(split, loader) \<in> set loaders. created_for split g = [dataset loader])"
proof -
  have inv: "cache_inv (initial_globals :: 'a globals)" by (rule cache_inv_initial)
  from run_calls_inv [OF inv, of DX calls] assms have "cache_inv g" by simp
  then have "length (created_for ''train'' g) \<le> 1 \<and> length (created_for ''test'' g) \<le> 1"
    by (rule cache_inv_at_most_one)
  moreover have "created_for split g = [dataset loader]" if "(split, loader) \<in> set loaders"
    for split loader
    using run_calls_loaders [OF inv, of split loader DX calls] that assms by simp
  ultimately show ?thesis by blast
qed

lemma demo_run_calls:
  "map (\<lambda>(split, d). (split, dataset_id d)) (created (fst (run_calls demo_data demo_calls initial_globals))) =
     [(''train'', 0), (''test'', 1)] \<and>
   map (\<lambda>(split, loader). (split, dataset_id (dataset loader)))
     (snd (run_calls demo_data demo_calls initial_globals)) =
     [(''train'', 0), (''test'', 1), (''train'', 0)]"
  by (simp add: demo_calls_def demo_data_def adam_config_def initial_globals_def
      get_train_dataloader_def get_eval_dataloader_def CSVDatasetsMerger_def DataLoader_def Let_def
      call_split_def)

theorem one_dataset_per_split_witness:
  "length (created_for ''train'' (fst (run_calls demo_data demo_calls initial_globals))) \<le> 1 \<and>
   length (created_for ''test'' (fst (run_calls demo_data demo_calls initial_globals))) \<le> 1 \<and>
   map (\<lambda>(split, d). (split, dataset_id d))
     (created (fst (run_calls demo_data demo_calls initial_globals))) =
     [(''train'', 0), (''test'', 1)] \<and>
   map (\<lambda>(split, loader). (split, dataset_id (dataset loader)))
     (snd (run_calls demo_data demo_calls initial_globals)) =
     [(''train'', 0), (''test'', 1), (''train'', 0)]"
  using one_dataset_per_split [of demo_data demo_calls
      "fst (run_calls demo_data demo_calls initial_globals)"
      "snd (run_calls demo_data demo_calls initial_globals)"]
    demo_run_calls
  by simp

section \<open>Properties of \<^verbatim>\<open>tune_training\<close>\<close>

lemma trace_emit: "tune_trace (emit e w) = tune_trace w @ [e]"
  by (simp add: emit_def)

lemma files_emit: "files (emit e w) = files w"
  by (simp add: emit_def)

lemma checkpointed_completions_Nil: "checkpointed_completions path [] = []"
  by (simp add: checkpointed_completions_def)

lemma run_trials_hyperopt_trace:
  "tune_trace (run_trials (HyperOptFIFO_on_trial_complete path) completions w) =
     tune_trace w @ checkpointed_completions path completions"
  by (induction completions arbitrary: w)
    (auto simp add: checkpointed_completions_def HyperOptFIFO_on_trial_complete_def
      FIFOScheduler_on_trial_complete_def algo_save_def trace_emit)

lemma run_trials_hyperopt_files:
  "files (run_trials (HyperOptFIFO_on_trial_complete path) completions w) =
     (if completions = [] then files w else (files w)(path := Some (snd (last completions))))"
  by (induction completions arbitrary: w)
    (auto simp add: HyperOptFIFO_on_trial_complete_def
      FIFOScheduler_on_trial_complete_def algo_save_def files_emit)

text \<open>Under the library's own scheduler hook no checkpoint is written.\<close>

lemma run_trials_fifo_trace:
  "tune_trace (run_trials FIFOScheduler_on_trial_complete completions w) =
     tune_trace w @ map (\<lambda>(trial, h). SchedulerOnTrialComplete trial) completions"
  by (induction completions arbitrary: w)
    (auto simp add: FIFOScheduler_on_trial_complete_def trace_emit)

lemma run_trials_fifo_files:
  "files (run_trials FIFOScheduler_on_trial_complete completions w) = files w"
  by (induction completions arbitrary: w)
    (auto simp add: FIFOScheduler_on_trial_complete_def files_emit)

text \<open>Sampling from a history avoids the history, when the library's proposals do.\<close>

lemma samples_avoid:
  assumes "\<forall>h' trial. suggest h' trial \<notin> set h'"
  shows "set h0 \<subseteq> set h \<Longrightarrow> c \<in> set (samples suggest h trials) \<Longrightarrow> c \<notin> set h0"
proof (induction trials arbitrary: h)
  case Nil
  then show ?case by simp
next
  case (Cons trial trials)
  from Cons.prems(2) consider
      (first) "c = suggest h trial"
    | (later) "c \<in> set (samples suggest (h @ [suggest h trial]) trials)"
    by auto
  then show ?case
  proof cases
    case first
    from assms have "suggest h trial \<notin> set h" by blast
    with first Cons.prems(1) show ?thesis by blast
  next
    case later
    from Cons.prems(1) have "set h0 \<subseteq> set (h @ [suggest h trial])" by auto
    from Cons.IH [OF this later] show ?thesis .
  qed
qed

lemma last_tune_run_append:
  "last_tune_run (xs @ ys) =
     (case last_tune_run ys of Some r \<Rightarrow> Some r | None \<Rightarrow> last_tune_run xs)"
  by (induction xs) (simp_all split: option.splits)

lemma last_tune_run_checkpointed:
  "last_tune_run (checkpointed_completions path completions) = None"
  by (induction completions) (auto simp add: checkpointed_completions_def)

lemma last_tune_run_hyperopt:
  "last_tune_run (pre @ [TuneRun sched alg n] @ checkpointed_completions path completions) =
     Some (alg, n)"
  by (simp add: last_tune_run_append last_tune_run_checkpointed)

lemma checkpoint_events_fifo:
  "\<not> list_ex is_checkpoint_event (map (\<lambda>(trial, h). SchedulerOnTrialComplete trial) completions)"
  by (induction completions) auto

text \<open>
  Claim C6, as amended. For every search run with the tuning method \<^verbatim>\<open>'hyperopt'\<close>, the
  search algorithm's state is saved to the checkpoint path after each completed trial,
  and whenever the resume flag is set the checkpoint is loaded (when it can be loaded)
  before \<^verbatim>\<open>tune.run\<close> is called, that is before any sampling begins, so that no
  configuration already present in the checkpoint's observation history is resampled,
  given that the search algorithm never proposes a configuration that is in the history
  it holds. Search runs with \<^verbatim>\<open>'bohb'\<close> or \<^verbatim>\<open>'no_search'\<close> neither save nor load a checkpoint.
\<close>

theorem hyperopt_checkpointing:
  "(tuning_method (tune config) = ''hyperopt'' \<longrightarrow>
      (\<exists>w'. tune_training completions config w = Inr (w', PyNone) \<and>
         tune_trace w' =
           tune_trace w @ [RayInit, MakeHyperOptSearch] @
           (if resume (tune config)
            then [AlgoRestore (hyper_opt_checkpoint_dir config),
                  (case files w (hyper_opt_checkpoint_dir config) of
                     Some h \<Rightarrow> PrintLoaded (length h) | None \<Rightarrow> PrintUnableToLoad)]
            else []) @
           [TuneRun (HyperOptFIFO (hyper_opt_checkpoint_dir config))
              (HyperOptSearch
                 (if resume (tune config)
                  then (case files w (hyper_opt_checkpoint_dir config) of Some h \<Rightarrow> h | None \<Rightarrow> [])
                  else []))
              (n_samples (tune config))] @
           checkpointed_completions (hyper_opt_checkpoint_dir config) completions \<and>
         files w' =
           (if completions = [] then files w
            else (files w)(hyper_opt_checkpoint_dir config := Some (snd (last completions)))) \<and>
         (\<forall>h suggest c.
            resume (tune config) \<and> files w (hyper_opt_checkpoint_dir config) = Some h \<and>
            (\<forall>h' trial. suggest h' trial \<notin> set h') \<and>
            c \<in> set (run_samples suggest (tune_trace w')) \<longrightarrow> c \<notin> set h))) \<and>
   (tuning_method (tune config) = ''bohb'' \<or> tuning_method (tune config) = ''no_search'' \<longrightarrow>
      (\<exists>w' result. tune_training completions config w = Inr (w', result) \<and>
         files w' = files w \<and>
         \<not> list_ex is_checkpoint_event (drop (length (tune_trace w)) (tune_trace w'))))"
proof (intro conjI impI)
  assume m: "tuning_method (tune config) = ''hyperopt''"
  let ?path = "hyper_opt_checkpoint_dir config"
  let ?h0 = "if resume (tune config)
             then (case files w ?path of Some h \<Rightarrow> h | None \<Rightarrow> []) else []"
  let ?pre = "tune_trace w @ [RayInit, MakeHyperOptSearch] @
           (if resume (tune config)
            then [AlgoRestore ?path,
                  (case files w ?path of
                     Some h \<Rightarrow> PrintLoaded (length h) | None \<Rightarrow> PrintUnableToLoad)]
            else [])"
  from m have "\<exists>w'. tune_training completions config w = Inr (w', PyNone) \<and>
         tune_trace w' = ?pre @
           [TuneRun (HyperOptFIFO ?path) (HyperOptSearch ?h0) (n_samples (tune config))] @
           checkpointed_completions ?path completions \<and>
         files w' =
           (if completions = [] then files w
            else (files w)(?path := Some (snd (last completions))))"
    by (simp add: tune_training_def tune_run_def algo_restore_def Let_def trace_emit files_emit
        run_trials_hyperopt_trace run_trials_hyperopt_files checkpointed_completions_Nil
        split: option.splits)
  then obtain w' where
    run: "tune_training completions config w = Inr (w', PyNone)"
    and tr: "tune_trace w' = ?pre @
           [TuneRun (HyperOptFIFO ?path) (HyperOptSearch ?h0) (n_samples (tune config))] @
           checkpointed_completions ?path completions"
    and fs: "files w' =
           (if completions = [] then files w
            else (files w)(?path := Some (snd (last completions))))"
    by blast
  have "last_tune_run (tune_trace w') = Some (HyperOptSearch ?h0, n_samples (tune config))"
    unfolding tr by (rule last_tune_run_hyperopt)
  then have rs: "run_samples suggest (tune_trace w') =
      samples suggest ?h0 [0..<nat (n_samples (tune config))]" for suggest
    by (simp add: run_samples_def)
  have avoid: "c \<notin> set h"
    if "resume (tune config) \<and> files w ?path = Some h \<and>
        (\<forall>h' trial. suggest h' trial \<notin> set h') \<and>
        c \<in> set (run_samples suggest (tune_trace w'))"
    for h suggest c
  proof -
    from that have h0: "?h0 = h" by simp
    from that have contract: "\<forall>h' trial. suggest h' trial \<notin> set h'" by blast
    from that have "c \<in> set (samples suggest h [0..<nat (n_samples (tune config))])"
      unfolding rs h0 by blast
    with samples_avoid [OF contract, of h h] show ?thesis by blast
  qed
  from run tr fs avoid
  show "\<exists>w'. tune_training completions config w = Inr (w', PyNone) \<and>
         tune_trace w' =
           tune_trace w @ [RayInit, MakeHyperOptSearch] @
           (if resume (tune config)
            then [AlgoRestore (hyper_opt_checkpoint_dir config),
                  (case files w (hyper_opt_checkpoint_dir config) of
                     Some h \<Rightarrow> PrintLoaded (length h) | None \<Rightarrow> PrintUnableToLoad)]
            else []) @
           [TuneRun (HyperOptFIFO (hyper_opt_checkpoint_dir config))
              (HyperOptSearch
                 (if resume (tune config)
                  then (case files w (hyper_opt_checkpoint_dir config) of Some h \<Rightarrow> h | None \<Rightarrow> [])
                  else []))
              (n_samples (tune config))] @
           checkpointed_completions (hyper_opt_checkpoint_dir config) completions \<and>
         files w' =
           (if completions = [] then files w
            else (files w)(hyper_opt_checkpoint_dir config := Some (snd (last completions)))) \<and>
         (\<forall>h suggest c.
            resume (tune config) \<and> files w (hyper_opt_checkpoint_dir config) = Some h \<and>
            (\<forall>h' trial. suggest h' trial \<notin> set h') \<and>
            c \<in> set (run_samples suggest (tune_trace w')) \<longrightarrow> c \<notin> set h)"
    by (intro exI [of _ w'] conjI) (simp, simp, simp, blast)
next
  assume "tuning_method (tune config) = ''bohb'' \<or> tuning_method (tune config) = ''no_search''"
  then show "\<exists>w' result. tune_training completions config w = Inr (w', result) \<and>
         files w' = files w \<and>
         \<not> list_ex is_checkpoint_event (drop (length (tune_trace w)) (tune_trace w'))"
    by (auto simp add: tune_training_def tune_run_def Let_def trace_emit files_emit
        run_trials_fifo_trace run_trials_fifo_files checkpoint_events_fifo)
qed

theorem hyperopt_checkpointing_witness:
  "tuning_method (tune adam_config) = ''hyperopt'' \<and> resume (tune adam_config) \<and>
   files checkpoint_world (hyper_opt_checkpoint_dir adam_config) = Some [7] \<and>
   (\<forall>h trial. fresh_config h trial \<notin> set h) \<and>
   tune_trace (tune_world_of
       (tune_training [(0, [7, 8]), (1, [7, 8, 16])] adam_config checkpoint_world)) =
     [RayInit, MakeHyperOptSearch, AlgoRestore ''work/exp/hyperopt'', PrintLoaded 1,
      TuneRun (HyperOptFIFO ''work/exp/hyperopt'') (HyperOptSearch [7]) 3,
      AlgoSave ''work/exp/hyperopt'' [7, 8], PrintCheckpointing, SchedulerOnTrialComplete 0,
      AlgoSave ''work/exp/hyperopt'' [7, 8, 16], PrintCheckpointing, SchedulerOnTrialComplete 1] \<and>
   files (tune_world_of
       (tune_training [(0, [7, 8]), (1, [7, 8, 16])] adam_config checkpoint_world))
     ''work/exp/hyperopt'' = Some [7, 8, 16] \<and>
   run_samples fresh_config (tune_trace (tune_world_of
       (tune_training [(0, [7, 8]), (1, [7, 8, 16])] adam_config checkpoint_world))) =
     [8, 16, 32] \<and>
   tuning_method (tune bohb_config) = ''bohb'' \<and>
   files (tune_world_of (tune_training [(0, [7, 8])] bohb_config checkpoint_world)) =
     files checkpoint_world"
proof -
  have m: "tuning_method (tune adam_config) = ''hyperopt''" and r: "resume (tune adam_config)"
    and n: "n_samples (tune adam_config) = 3"
    and d: "hyper_opt_checkpoint_dir adam_config = ''work/exp/hyperopt''"
    by (simp_all add: adam_config_def hyper_opt_checkpoint_dir_def path_join_def)
  have f: "files checkpoint_world ''work/exp/hyperopt'' = Some [7]"
    and t: "tune_trace checkpoint_world = []"
    by (simp_all add: checkpoint_world_def)
  have le_sum: "x \<le> sum_list h" if "x \<in> set h" for x :: nat and h
    using that by (induction h) auto
  have fresh: "\<forall>h trial. fresh_config h trial \<notin> set h"
  proof (intro allI notI)
    fix h :: "nat list" and trial
    assume "fresh_config h trial \<in> set h"
    then have "fresh_config h trial \<le> sum_list h" by (rule le_sum)
    then show False by (simp add: fresh_config_def)
  qed
  have b: "tuning_method (tune bohb_config) = ''bohb''"
    by (simp add: bohb_config_def adam_config_def)
  note A = hyperopt_checkpointing [where config = adam_config
      and completions = "[(0, [7, 8]), (1, [7, 8, 16])]" and w = checkpoint_world]
  note B = hyperopt_checkpointing [where config = bohb_config
      and completions = "[(0, [7, 8])]" and w = checkpoint_world]
  from A m obtain w' where
    run: "tune_training [(0, [7, 8]), (1, [7, 8, 16])] adam_config checkpoint_world = Inr (w', PyNone)"
    and tr: "tune_trace w' =
      [RayInit, MakeHyperOptSearch, AlgoRestore ''work/exp/hyperopt'', PrintLoaded 1,
      TuneRun (HyperOptFIFO ''work/exp/hyperopt'') (HyperOptSearch [7]) 3,
      AlgoSave ''work/exp/hyperopt'' [7, 8], PrintCheckpointing, SchedulerOnTrialComplete 0,
      AlgoSave ''work/exp/hyperopt'' [7, 8, 16], PrintCheckpointing, SchedulerOnTrialComplete 1]"
    and fs: "files w' ''work/exp/hyperopt'' = Some [7, 8, 16]"
    using r n d f t by (auto simp add: checkpointed_completions_def)
  have rs: "run_samples fresh_config (tune_trace w') = [8, 16, 32]"
    unfolding tr by (simp add: run_samples_def fresh_config_def numeral_3_eq_3)
  from B b obtain w2 result where
    "tune_training [(0, [7, 8])] bohb_config checkpoint_world = Inr (w2, result)"
    and "files w2 = files checkpoint_world"
    by blast
  then have fb: "files (tune_world_of (tune_training [(0, [7, 8])] bohb_config checkpoint_world)) =
     files checkpoint_world"
    by (simp add: tune_world_of_def)
  from run tr fs rs have
    "tune_trace (tune_world_of
       (tune_training [(0, [7, 8]), (1, [7, 8, 16])] adam_config checkpoint_world)) =
     [RayInit, MakeHyperOptSearch, AlgoRestore ''work/exp/hyperopt'', PrintLoaded 1,
      TuneRun (HyperOptFIFO ''work/exp/hyperopt'') (HyperOptSearch [7]) 3,
      AlgoSave ''work/exp/hyperopt'' [7, 8], PrintCheckpointing, SchedulerOnTrialComplete 0,
      AlgoSave ''work/exp/hyperopt'' [7, 8, 16], PrintCheckpointing, SchedulerOnTrialComplete 1]"
    "files (tune_world_of
       (tune_training [(0, [7, 8]), (1, [7, 8, 16])] adam_config checkpoint_world))
     ''work/exp/hyperopt'' = Some [7, 8, 16]"
    "run_samples fresh_config (tune_trace (tune_world_of
       (tune_training [(0, [7, 8]), (1, [7, 8, 16])] adam_config checkpoint_world))) =
     [8, 16, 32]"
    by (simp_all add: tune_world_of_def)
  with m r f d fresh b fb show ?thesis by simp
qed

text \<open>
  Claim C6 as stated fails for a search run with the tuning method \<^verbatim>\<open>'bohb'\<close>: with the
  resume flag set and a checkpoint on disk, nothing is loaded before the run and nothing
  is saved when a trial completes.
\<close>

theorem bohb_no_checkpoint_counterexample:
  "resume (tune bohb_config) \<and>
   files checkpoint_world (hyper_opt_checkpoint_dir bohb_config) = Some [7] \<and>
   tune_training [(0, [7, 8])] bohb_config checkpoint_world =
     Inr (checkpoint_world\<lparr>tune_trace :=
            [RayInit, MakeBOHB, TuneRun HyperBandForBOHB TuneBOHB 1, SchedulerOnTrialComplete 0]\<rparr>,
          ExperimentAnalysis) \<and>
   \<not> list_ex is_checkpoint_event
       (tune_trace (tune_world_of (tune_training [(0, [7, 8])] bohb_config checkpoint_world)))"
  by (simp add: tune_training_def tune_run_def bohb_config_def adam_config_def
      checkpoint_world_def hyper_opt_checkpoint_dir_def path_join_def emit_def
      FIFOScheduler_on_trial_complete_def tune_world_of_def)

text \<open>
  Claim C7. When the resume flag is set and the checkpoint cannot be loaded, the
  exception is caught: the red message is printed and the search goes on from a cold
  start. \<^verbatim>\<open>tune.run\<close> is called with a search algorithm that has no history, and from that
  call on the run is the run of the same configuration with the resume flag off.
\<close>

theorem checkpoint_load_failure_cold_start:
  assumes "tuning_method (tune config) = ''hyperopt''"
    and "resume (tune config)"
    and "files w (hyper_opt_checkpoint_dir config) = None"
  shows "\<exists>w1 w2.
     tune_training completions config w = Inr (w1, PyNone) \<and>
     tune_training completions (config\<lparr>tune := (tune config)\<lparr>resume := False\<rparr>\<rparr>) w = Inr (w2, PyNone) \<and>
     tune_trace w1 =
       tune_trace w @ [RayInit, MakeHyperOptSearch,
         AlgoRestore (hyper_opt_checkpoint_dir config), PrintUnableToLoad] @
       TuneRun (HyperOptFIFO (hyper_opt_checkpoint_dir config)) (HyperOptSearch [])
         (n_samples (tune config)) #
       checkpointed_completions (hyper_opt_checkpoint_dir config) completions \<and>
     tune_trace w2 =
       tune_trace w @ [RayInit, MakeHyperOptSearch] @
       TuneRun (HyperOptFIFO (hyper_opt_checkpoint_dir config)) (HyperOptSearch [])
         (n_samples (tune config)) #
       checkpointed_completions (hyper_opt_checkpoint_dir config) completions \<and>
     files w1 = files w2"
  using assms
  by (simp add: tune_training_def tune_run_def algo_restore_def Let_def trace_emit files_emit
      run_trials_hyperopt_trace run_trials_hyperopt_files hyper_opt_checkpoint_dir_def)

theorem checkpoint_load_failure_cold_start_witness:
  "tuning_method (tune adam_config) = ''hyperopt'' \<and> resume (tune adam_config) \<and>
   files (initial_tune_world :: nat tune_world) (hyper_opt_checkpoint_dir adam_config) = None \<and>
   tune_trace (tune_world_of (tune_training [(0, [8])] adam_config (initial_tune_world :: nat tune_world))) =
     [RayInit, MakeHyperOptSearch, AlgoRestore ''work/exp/hyperopt'', PrintUnableToLoad,
      TuneRun (HyperOptFIFO ''work/exp/hyperopt'') (HyperOptSearch []) 3,
      AlgoSave ''work/exp/hyperopt'' [8], PrintCheckpointing, SchedulerOnTrialComplete 0]"
proof -
  have m: "tuning_method (tune adam_config) = ''hyperopt''" and r: "resume (tune adam_config)"
    and n: "n_samples (tune adam_config) = 3"
    and d: "hyper_opt_checkpoint_dir adam_config = ''work/exp/hyperopt''"
    by (simp_all add: adam_config_def hyper_opt_checkpoint_dir_def path_join_def)
  have f: "files (initial_tune_world :: nat tune_world) (hyper_opt_checkpoint_dir adam_config) = None"
    and t: "tune_trace (initial_tune_world :: nat tune_world) = []"
    by (simp_all add: initial_tune_world_def)
  from checkpoint_load_failure_cold_start [OF m r f, of "[(0, [8])]"]
  show ?thesis
    using m r n d f t by (auto simp add: tune_world_of_def checkpointed_completions_def)
qed

section \<open>Unsupported configurations\<close>

lemma normal_training_unsupported:
  assumes "optimizer_name (optimizer config) \<noteq> ''adam''"
  shows "normal_training X DX accepts config g =
     (case setup_training X DX config g of
        Inl (e, g1) \<Rightarrow> Inl (e, g1, [])
      | Inr (g1, mw, train_dataloader, eval_dataloader) \<Rightarrow>
          Inl (NotImplementedError, g1, [ModelTrain]))"
  using assms
  by (simp add: normal_training_def get_optimizers_unsupported model_train_def record_event_def
      split: sum.splits prod.splits)

text \<open>
  Claim C5, as amended. For every configuration naming an optimizer other than
  \<^verbatim>\<open>'adam'\<close>, \<^verbatim>\<open>get_optimizers\<close> raises \<^verbatim>\<open>NotImplementedError\<close>, and in \<^verbatim>\<open>normal_training\<close> it
  does so after the set-up and \<^verbatim>\<open>model.train()\<close> but before any call of a training step.
  For every configuration naming a tuning method other than \<^verbatim>\<open>'bohb'\<close>, \<^verbatim>\<open>'hyperopt'\<close> and
  \<^verbatim>\<open>'no_search'\<close>, \<^verbatim>\<open>tune_training\<close> raises \<^verbatim>\<open>NotImplementedError\<close> after \<^verbatim>\<open>ray.init()\<close>, its
  only effect: no search algorithm, scheduler or trial wrapper is built, \<^verbatim>\<open>tune.run\<close> is not
  called, and no checkpoint is read or written.
\<close>

theorem unsupported_names_raise:
  "(optimizer_name (optimizer config) \<noteq> ''adam'' \<longrightarrow>
      get_optimizers accepts model config = Inl NotImplementedError \<and>
      normal_training X DX accepts config g =
        (case setup_training X DX config g of
           Inl (e, g1) \<Rightarrow> Inl (e, g1, [])
         | Inr (g1, mw, train_dataloader, eval_dataloader) \<Rightarrow>
             Inl (NotImplementedError, g1, [ModelTrain])) \<and>
      \<not> list_ex is_training_event (run_trace (normal_training X DX accepts config g))) \<and>
   (tuning_method (tune config) \<noteq> ''bohb'' \<and> tuning_method (tune config) \<noteq> ''hyperopt'' \<and>
    tuning_method (tune config) \<noteq> ''no_search'' \<longrightarrow>
      tune_training completions config w =
        Inl (NotImplementedError, w\<lparr>tune_trace := tune_trace w @ [RayInit]\<rparr>))"
proof (intro conjI impI)
  assume a: "optimizer_name (optimizer config) \<noteq> ''adam''"
  then show "get_optimizers accepts model config = Inl NotImplementedError"
    by (rule get_optimizers_unsupported)
  from a show nt: "normal_training X DX accepts config g =
        (case setup_training X DX config g of
           Inl (e, g1) \<Rightarrow> Inl (e, g1, [])
         | Inr (g1, mw, train_dataloader, eval_dataloader) \<Rightarrow>
             Inl (NotImplementedError, g1, [ModelTrain]))"
    by (rule normal_training_unsupported)
  show "\<not> list_ex is_training_event (run_trace (normal_training X DX accepts config g))"
    unfolding nt by (simp add: run_trace_def split: sum.splits prod.splits)
next
  assume "tuning_method (tune config) \<noteq> ''bohb'' \<and> tuning_method (tune config) \<noteq> ''hyperopt'' \<and>
    tuning_method (tune config) \<noteq> ''no_search''"
  then show "tune_training completions config w =
        Inl (NotImplementedError, w\<lparr>tune_trace := tune_trace w @ [RayInit]\<rparr>)"
    by (simp add: tune_training_def emit_def)
qed

theorem unsupported_names_raise_witness:
  "optimizer_name (optimizer sgd_config) \<noteq> ''adam'' \<and>
   get_optimizers accept_all mixed_model sgd_config = Inl NotImplementedError \<and>
   run_trace (normal_training demo_externals demo_data accept_all sgd_config initial_globals) =
     [ModelTrain] \<and>
   tuning_method (tune grid_config) = ''grid_search'' \<and>
   tune_training [(0, [7])] grid_config checkpoint_world =
     Inl (NotImplementedError, checkpoint_world\<lparr>tune_trace := [RayInit]\<rparr>)"
proof -
  have o: "optimizer_name (optimizer sgd_config) \<noteq> ''adam''"
    by (simp add: sgd_config_def adam_config_def)
  have t: "tuning_method (tune grid_config) = ''grid_search''"
    by (simp add: grid_config_def adam_config_def)
  have s: "\<exists>g1 mw tl el. setup_training demo_externals demo_data sgd_config initial_globals =
      Inr (g1, mw, tl, el)"
    by (simp add: setup_training_def get_train_dataloader_def get_eval_dataloader_def
        CSVDatasetsMerger_def DataLoader_def demo_data_def initial_globals_def sgd_config_def
        adam_config_def Let_def)
  have w: "tune_trace checkpoint_world = []" by (simp add: checkpoint_world_def)
  note A = unsupported_names_raise [where config = sgd_config and accepts = accept_all
      and model = mixed_model and X = demo_externals and DX = demo_data and g = initial_globals
      and completions = "[(0, [7])]" and w = checkpoint_world]
  note B = unsupported_names_raise [where config = grid_config and accepts = accept_all
      and model = mixed_model and X = demo_externals and DX = demo_data and g = initial_globals
      and completions = "[(0, [7])]" and w = checkpoint_world]
  from A o have a1: "get_optimizers accept_all mixed_model sgd_config = Inl NotImplementedError"
    and a2: "normal_training demo_externals demo_data accept_all sgd_config initial_globals =
        (case setup_training demo_externals demo_data sgd_config initial_globals of
           Inl (e, g1) \<Rightarrow> Inl (e, g1, [])
         | Inr (g1, mw, train_dataloader, eval_dataloader) \<Rightarrow>
             Inl (NotImplementedError, g1, [ModelTrain]))"
    by simp_all
  from a2 s have a3: "run_trace (normal_training demo_externals demo_data accept_all sgd_config
      initial_globals) = [ModelTrain]"
    by (auto simp add: run_trace_def)
  from B t w have b: "tune_training [(0, [7])] grid_config checkpoint_world =
     Inl (NotImplementedError, checkpoint_world\<lparr>tune_trace := [RayInit]\<rparr>)"
    by simp
  from o a1 a3 t b show ?thesis by simp
qed

text \<open>
  Claim C5 as stated fails in its "no side effects": the check of the tuning method is
  the last branch of the dispatch, reached after \<^verbatim>\<open>ray.init()\<close> has started the Ray
  runtime.
\<close>

theorem tune_training_ray_init_counterexample:
  "tuning_method (tune grid_config) = ''grid_search'' \<and>
   tune_training [] grid_config (initial_tune_world :: nat tune_world) =
     Inl (NotImplementedError, \<lparr>files = (\<lambda>path. None), tune_trace = [RayInit]\<rparr>) \<and>
   tune_trace (initial_tune_world :: nat tune_world) = []"
  by (simp add: tune_training_def grid_config_def adam_config_def initial_tune_world_def emit_def)

section \<open>Properties of the training loop\<close>

declare chunks.simps [simp del]

lemma chunks_Nil: "chunks n [] = []"
  by (simp add: chunks.simps)

lemma chunks_two:
  assumes "length xs = 2 * n" and "0 < n"
  shows "chunks n xs = [take n xs, drop n xs]"
proof -
  from assms have ne: "xs \<noteq> []" by auto
  from assms have ne2: "drop n xs \<noteq> []" by auto
  from assms have e: "drop n (drop n xs) = []" by simp
  from assms have t: "take n (drop n xs) = drop n xs" by simp
  have "chunks n (drop n (drop n xs)) = []" unfolding e by (rule chunks_Nil)
  moreover have "chunks n (drop n xs) = take n (drop n xs) # chunks n (drop n (drop n xs))"
    using ne2 assms(2) by (subst chunks.simps) simp
  moreover have "chunks n xs = take n xs # chunks n (drop n xs)"
    using ne assms(2) by (subst chunks.simps) simp
  ultimately show ?thesis by (simp only: t)
qed

text \<open>The batches of a pass are the visited examples cut up: none is dropped or repeated.\<close>

lemma concat_chunks: "0 < n \<Longrightarrow> concat (chunks n xs) = xs"
proof (induction n xs rule: chunks.induct)
  case (1 n xs)
  show ?case
  proof (cases "xs = []")
    case True
    then show ?thesis by (simp add: chunks_Nil)
  next
    case False
    with 1 show ?thesis by (subst chunks.simps) simp
  qed
qed

lemma train_report_steps_append:
  "train_report_steps (xs @ ys) = train_report_steps xs @ train_report_steps ys"
proof (induction xs)
  case Nil
  then show ?case by simp
next
  case (Cons e es)
  then show ?case by (cases e) simp_all
qed

lemma train_report_steps_zero_grad: "train_report_steps (map ZeroGrad opts) = []"
  by (induction opts) simp_all

lemma train_report_steps_opt_step: "train_report_steps (map OptStep opts) = []"
  by (induction opts) simp_all

lemma train_report_steps_training_step:
  assumes "training_step X batch optimizers s = Inr (s1, loss, acc)"
  shows "train_report_steps (trace s1) = train_report_steps (trace s)"
proof -
  obtain labels tokens where b: "batch = (labels, tokens)" by (cases batch)
  from training_step_Inr [OF assms [unfolded b]] show ?thesis
    by (auto simp add: train_report_steps_append train_report_steps_zero_grad
        train_report_steps_opt_step)
qed

lemma trace_log_results:
  "trace (log_results results n epoch s) =
     trace s @ map (\<lambda>(metric, v). EvalMetric metric v n epoch) results"
  unfolding log_results_def
  by (induction results arbitrary: s) (auto simp add: record_event_def)

lemma train_report_steps_eval_metrics:
  "train_report_steps (map (\<lambda>(metric, v). EvalMetric metric v n epoch) results) = []"
  by (induction results) auto

text \<open>What one pass through the loop body that does not raise has done.\<close>

lemma batch_body_Inr:
  assumes "batch_body X config optimizers eval_dataloader epoch idx batch (s, n) = Inr (s', n')"
  shows "\<exists>s1 loss acc.
     training_step X batch optimizers s = Inr (s1, loss, acc) \<and>
     n' = n + length (fst batch) \<and>
     log_every_n_batches (training config) \<noteq> 0 \<and> eval_every_n_batches (training config) \<noteq> 0 \<and>
     (if int idx mod eval_every_n_batches (training config) = 0
      then (\<exists>mode w results.
              eval_model X eval_dataloader (training_mode s1) (weights s1) = Inr (mode, w, results) \<and>
              trace s' = trace s1 @
                (if int idx mod log_every_n_batches (training config) = 0
                 then [TrainMetric loss n' epoch] else []) @
                EvalModel # map (\<lambda>(metric, v). EvalMetric metric v n' epoch) results)
      else trace s' = trace s1 @
             (if int idx mod log_every_n_batches (training config) = 0
              then [TrainMetric loss n' epoch] else []))"
proof -
  from assms obtain s1 loss acc where ts: "training_step X batch optimizers s = Inr (s1, loss, acc)"
    by (auto simp add: batch_body_def Let_def split: sum.splits prod.splits)
  from assms have rest: "n' = n + length (fst batch) \<and>
     log_every_n_batches (training config) \<noteq> 0 \<and> eval_every_n_batches (training config) \<noteq> 0 \<and>
     (if int idx mod eval_every_n_batches (training config) = 0
      then (\<exists>mode w results.
              eval_model X eval_dataloader (training_mode s1) (weights s1) = Inr (mode, w, results) \<and>
              trace s' = trace s1 @
                (if int idx mod log_every_n_batches (training config) = 0
                 then [TrainMetric loss n' epoch] else []) @
                EvalModel # map (\<lambda>(metric, v). EvalMetric metric v n' epoch) results)
      else trace s' = trace s1 @
             (if int idx mod log_every_n_batches (training config) = 0
              then [TrainMetric loss n' epoch] else []))"
    by (auto simp add: batch_body_def ts Let_def evaluate_def log_train_loss_def trace_log_results
        trace_record_event mode_record_event weights_record_event
        split: sum.splits prod.splits if_splits)
  with ts show ?thesis by blast
qed

lemma batch_body_reports:
  assumes "batch_body X config optimizers eval_dataloader epoch idx batch (s, n) = Inr (s', n')"
  shows "n' = n + length (fst batch) \<and>
     train_report_steps (trace s') = train_report_steps (trace s) @
       (if int idx mod log_every_n_batches (training config) = 0 then [n'] else [])"
proof -
  from batch_body_Inr [OF assms] obtain s1 loss acc where
    ts: "training_step X batch optimizers s = Inr (s1, loss, acc)"
    and n': "n' = n + length (fst batch)"
    and tr: "if int idx mod eval_every_n_batches (training config) = 0
      then (\<exists>mode w results.
              eval_model X eval_dataloader (training_mode s1) (weights s1) = Inr (mode, w, results) \<and>
              trace s' = trace s1 @
                (if int idx mod log_every_n_batches (training config) = 0
                 then [TrainMetric loss n' epoch] else []) @
                EvalModel # map (\<lambda>(metric, v). EvalMetric metric v n' epoch) results)
      else trace s' = trace s1 @
             (if int idx mod log_every_n_batches (training config) = 0
              then [TrainMetric loss n' epoch] else [])"
    by blast
  from train_report_steps_training_step [OF ts]
  have "train_report_steps (trace s1) = train_report_steps (trace s)" .
  with tr n' show ?thesis
    by (auto simp add: train_report_steps_append train_report_steps_eval_metrics
        split: if_splits)
qed

lemma get_train_dataloader_fields:
  assumes "get_train_dataloader DX config transformer g = Inr (g1, loader)"
  shows "batch_size loader = train_batch_size (training config) \<and> shuffle loader \<and>
     \<not> drop_last loader \<and> collate_fn loader = transformer \<and> 0 < batch_size loader"
  using assms
  by (auto simp add: get_train_dataloader_def DataLoader_def
      split: sum.splits prod.splits if_splits option.splits)

lemma setup_training_Inr:
  assumes "setup_training X DX config g = Inr (g2, mw, train_dataloader, eval_dataloader)"
  shows "\<exists>g1. get_train_dataloader DX config (train_text_proc DX) g = Inr (g1, train_dataloader) \<and>
     get_eval_dataloader DX config (eval_text_proc DX) g1 = Inr (g2, eval_dataloader) \<and>
     mw = get_model X config"
  using assms
  by (auto simp add: setup_training_def split: sum.splits prod.splits)

lemma batch_loop_Cons_Inr:
  assumes "batch_loop X config optimizers eval_dataloader epoch idx (batch # rest) sn = Inr r"
  shows "\<exists>sn1. batch_body X config optimizers eval_dataloader epoch idx batch sn = Inr sn1 \<and>
     batch_loop X config optimizers eval_dataloader epoch (Suc idx) rest sn1 = Inr r"
  using assms by (auto split: sum.splits)

lemma epoch_loop_Cons_Inr:
  assumes "epoch_loop X DX config optimizers train_dataloader eval_dataloader (epoch # epochs) sn = Inr r"
  shows "\<exists>sn1. batch_loop X config optimizers eval_dataloader epoch 0
            (iterate DX train_dataloader epoch) sn = Inr sn1 \<and>
     epoch_loop X DX config optimizers train_dataloader eval_dataloader epochs sn1 = Inr r"
  using assms by (auto split: sum.splits)

lemma normal_training_Inr:
  assumes "normal_training X DX accepts config g = Inr (g', s')"
  shows "\<exists>model w train_dataloader eval_dataloader optimizers s1 n.
     setup_training X DX config g = Inr (g', (model, w), train_dataloader, eval_dataloader) \<and>
     get_optimizers accepts model config = Inr optimizers \<and>
     s1 = \<lparr>training_mode = True, weights = w, trace = [ModelTrain]\<rparr> \<and>
     epoch_loop X DX config optimizers train_dataloader eval_dataloader
       [0..<nat (training_epochs (training config))] (s1, 0) = Inr (s', n)"
  using assms
  by (auto simp add: normal_training_def model_train_def record_event_def Let_def
      split: sum.splits prod.splits)

text \<open>
  Claim C4. A run of \<^verbatim>\<open>normal_training\<close> that completes, with \<^verbatim>\<open>training_epochs=1\<close>,
  \<^verbatim>\<open>train_batch_size=8\<close>, \<^verbatim>\<open>log_every_n_batches=1\<close> and a training dataset of 16 examples,
  emits exactly two training metric reports, with the steps 8 and then 16: the step of
  a report is the count of examples processed so far. (A shuffled pass visits every
  example, and the collate function returns one label per example.)
\<close>

theorem two_reports_for_sixteen_examples:
  assumes epochs: "training_epochs (training config) = 1"
    and bs: "train_batch_size (training config) = 8"
    and log: "log_every_n_batches (training config) = 1"
    and built: "setup_training X DX config g = Inr (g1, mw, train_dataloader, eval_dataloader)"
    and sixteen: "length (examples (dataset train_dataloader)) = 16"
    and perm: "\<forall>k rows. length (permutation DX k rows) = length rows"
    and collate: "\<forall>rows. length (fst (train_text_proc DX rows)) = length rows"
    and run: "normal_training X DX accepts config g = Inr (g', s')"
  shows "train_report_steps (trace s') = [8, 16]"
proof -
  from normal_training_Inr [OF run] obtain model w tl el optimizers s1 n where
    su: "setup_training X DX config g = Inr (g', (model, w), tl, el)"
    and s1_def: "s1 = \<lparr>training_mode = True, weights = w, trace = [ModelTrain]\<rparr>"
    and loop0: "epoch_loop X DX config optimizers tl el
       [0..<nat (training_epochs (training config))] (s1, 0) = Inr (s', n)"
    by blast
  from su built have "tl = train_dataloader" and "el = eval_dataloader" by simp_all
  with loop0 have loop: "epoch_loop X DX config optimizers train_dataloader eval_dataloader
       [0..<nat (training_epochs (training config))] (s1, 0) = Inr (s', n)"
    by simp
  from s1_def have s1: "trace s1 = [ModelTrain]" by simp
  from setup_training_Inr [OF built] obtain ga where
    "get_train_dataloader DX config (train_text_proc DX) g = Inr (ga, train_dataloader)"
    by blast
  from get_train_dataloader_fields [OF this] bs
  have loader: "batch_size train_dataloader = 8" "shuffle train_dataloader"
    "\<not> drop_last train_dataloader" "collate_fn train_dataloader = train_text_proc DX"
    by simp_all
  define p where "p = permutation DX 0 (examples (dataset train_dataloader))"
  have lp: "length p = 2 * 8" using perm sixteen by (simp add: p_def)
  have ch: "chunks 8 p = [take 8 p, drop 8 p]" using lp by (rule chunks_two) simp
  define b1 where "b1 = train_text_proc DX (take 8 p)"
  define b2 where "b2 = train_text_proc DX (drop 8 p)"
  have it: "iterate DX train_dataloader 0 = [b1, b2]"
    using loader ch by (simp add: iterate_def p_def b1_def b2_def)
  have l1: "length (fst b1) = 8" and l2: "length (fst b2) = 8"
    using collate lp by (simp_all add: b1_def b2_def)
  from loop epochs have "epoch_loop X DX config optimizers train_dataloader eval_dataloader
       [0] (s1, 0) = Inr (s', n)" by simp
  from epoch_loop_Cons_Inr [OF this] it
  have "batch_loop X config optimizers eval_dataloader 0 0 [b1, b2] (s1, 0) = Inr (s', n)"
    by auto
  from batch_loop_Cons_Inr [OF this] obtain sa na where
    first: "batch_body X config optimizers eval_dataloader 0 0 b1 (s1, 0) = Inr (sa, na)"
    and "batch_loop X config optimizers eval_dataloader 0 (Suc 0) [b2] (sa, na) = Inr (s', n)"
    by auto
  from batch_loop_Cons_Inr [OF this(2)]
  have second: "batch_body X config optimizers eval_dataloader 0 (Suc 0) b2 (sa, na) = Inr (s', n)"
    by auto
  from batch_body_reports [OF first] s1 l1 log
  have na: "na = 8" and ra: "train_report_steps (trace sa) = [8]" by simp_all
  from batch_body_reports [OF second] na ra l2 log
  show ?thesis by simp
qed

lemma demo_setup:
  "\<exists>g1 tl el. setup_training demo_externals demo_data adam_config initial_globals =
      Inr (g1, (mixed_model, 0), tl, el) \<and> length (examples (dataset tl)) = 16"
  by (simp add: setup_training_def get_train_dataloader_def get_eval_dataloader_def
      CSVDatasetsMerger_def DataLoader_def demo_data_def initial_globals_def
      adam_config_def demo_externals_def Let_def)

lemma demo_run:
  "\<exists>g' s'. normal_training demo_externals demo_data accept_all adam_config initial_globals =
      Inr (g', s')"
  by (simp add: normal_training_def setup_training_def get_train_dataloader_def
      get_eval_dataloader_def CSVDatasetsMerger_def DataLoader_def demo_data_def
      initial_globals_def adam_config_def demo_externals_def Let_def
      get_optimizers_def construct_def accept_all_def mixed_model_def
      iterate_def chunks_two batch_body_def training_step_def model_train_def
      opt_zero_grad_def model_call_def loss_call_def loss_backward_def opt_step_call_def
      record_event_def chosen_labels_def tensor_eq_def masked_select_def evaluate_def log_train_loss_def
      log_results_def numeral_2_eq_2)



theorem two_reports_for_sixteen_examples_witness:
  "training_epochs (training adam_config) = 1 \<and> train_batch_size (training adam_config) = 8 \<and>
   log_every_n_batches (training adam_config) = 1 \<and>
   train_report_steps (run_trace
     (normal_training demo_externals demo_data accept_all adam_config initial_globals)) = [8, 16]"
proof -
  have c: "training_epochs (training adam_config) = 1" "train_batch_size (training adam_config) = 8"
    "log_every_n_batches (training adam_config) = 1"
    by (simp_all add: adam_config_def)
  from demo_setup obtain g1 tl el where
    su: "setup_training demo_externals demo_data adam_config initial_globals =
      Inr (g1, (mixed_model, 0), tl, el)"
    and n: "length (examples (dataset tl)) = 16"
    by blast
  from demo_run obtain g' s' where
    run: "normal_training demo_externals demo_data accept_all adam_config initial_globals =
      Inr (g', s')"
    by blast
  have p: "\<forall>k rows. length (permutation demo_data k rows) = length rows"
    and t: "\<forall>rows. length (fst (train_text_proc demo_data rows)) = length rows"
    by (simp_all add: demo_data_def)
  from two_reports_for_sixteen_examples [OF c su n p t run]
  have "train_report_steps (trace s') = [8, 16]" .
  with run c show ?thesis by (simp add: run_trace_def)
qed


text \<open>The loops only add to the trace.\<close>

lemma batch_body_extends:
  assumes "batch_body X config optimizers eval_dataloader epoch idx batch (s, n) = Inr (s', n')"
  shows "\<exists>ext. trace s' = trace s @ ext"
proof -
  obtain labels tokens where b: "batch = (labels, tokens)" by (cases batch)
  from batch_body_Inr [OF assms] obtain s1 loss acc where
    ts: "training_step X batch optimizers s = Inr (s1, loss, acc)"
    and ex: "\<exists>ext. trace s' = trace s1 @ ext"
    by (auto split: if_splits)
  from training_step_Inr [OF ts [unfolded b]] have "\<exists>ext. trace s1 = trace s @ ext" by auto
  with ex show ?thesis by auto
qed

lemma batch_loop_extends:
  "batch_loop X config optimizers eval_dataloader epoch idx batches (s, n) = Inr (s', n') \<Longrightarrow>
     \<exists>ext. trace s' = trace s @ ext"
proof (induction batches arbitrary: idx s n)
  case Nil
  then show ?case by simp
next
  case (Cons batch rest)
  from batch_loop_Cons_Inr [OF Cons.prems] obtain sa na where
    a: "batch_body X config optimizers eval_dataloader epoch idx batch (s, n) = Inr (sa, na)"
    and b: "batch_loop X config optimizers eval_dataloader epoch (Suc idx) rest (sa, na) = Inr (s', n')"
    by auto
  from batch_body_extends [OF a] obtain e1 where "trace sa = trace s @ e1" by blast
  moreover from Cons.IH [OF b] obtain e2 where "trace s' = trace sa @ e2" by blast
  ultimately show ?case by simp
qed

lemma epoch_loop_extends:
  "epoch_loop X DX config optimizers train_dataloader eval_dataloader epochs (s, n) = Inr (s', n') \<Longrightarrow>
     \<exists>ext. trace s' = trace s @ ext"
proof (induction epochs arbitrary: s n)
  case Nil
  then show ?case by simp
next
  case (Cons epoch epochs)
  from epoch_loop_Cons_Inr [OF Cons.prems] obtain sa na where
    a: "batch_loop X config optimizers eval_dataloader epoch 0
            (iterate DX train_dataloader epoch) (s, n) = Inr (sa, na)"
    and b: "epoch_loop X DX config optimizers train_dataloader eval_dataloader epochs (sa, na) = Inr (s', n')"
    by auto
  from batch_loop_extends [OF a] obtain e1 where "trace sa = trace s @ e1" by blast
  moreover from Cons.IH [OF b] obtain e2 where "trace s' = trace sa @ e2" by blast
  ultimately show ?case by simp
qed

text \<open>
  Claim C9. For positive \<^verbatim>\<open>log_every_n_batches\<close> and \<^verbatim>\<open>eval_every_n_batches\<close>, in every
  epoch of a run that completes the first batch is followed at once by a training metric
  report and a full evaluation: each epoch iterates the loader from index 0, and 0 modulo
  a positive number is 0. The theorem is about the loop from the start of any epoch, in
  whatever state the earlier epochs left.
\<close>

theorem first_batch_of_every_epoch:
  assumes log: "0 < log_every_n_batches (training config)"
    and ev: "0 < eval_every_n_batches (training config)"
    and loop: "epoch_loop X DX config optimizers train_dataloader eval_dataloader
        (epoch # epochs) (s, n) = Inr (s', n')"
    and first: "iterate DX train_dataloader epoch = batch # rest"
  shows "\<exists>s1 loss acc mode w results later.
     training_step X batch optimizers s = Inr (s1, loss, acc) \<and>
     eval_model X eval_dataloader (training_mode s1) (weights s1) = Inr (mode, w, results) \<and>
     trace s' = trace s1 @
       [TrainMetric loss (n + length (fst batch)) epoch, EvalModel] @
       map (\<lambda>(metric, v). EvalMetric metric v (n + length (fst batch)) epoch) results @ later"
proof -
  from epoch_loop_Cons_Inr [OF loop] first obtain sb nb where
    bl: "batch_loop X config optimizers eval_dataloader epoch 0 (batch # rest) (s, n) = Inr (sb, nb)"
    and el: "epoch_loop X DX config optimizers train_dataloader eval_dataloader epochs (sb, nb) = Inr (s', n')"
    by auto
  from batch_loop_Cons_Inr [OF bl] obtain sa na where
    bb: "batch_body X config optimizers eval_dataloader epoch 0 batch (s, n) = Inr (sa, na)"
    and br: "batch_loop X config optimizers eval_dataloader epoch (Suc 0) rest (sa, na) = Inr (sb, nb)"
    by auto
  from batch_body_Inr [OF bb] obtain s1 loss acc mode w results where
    ts: "training_step X batch optimizers s = Inr (s1, loss, acc)"
    and em: "eval_model X eval_dataloader (training_mode s1) (weights s1) = Inr (mode, w, results)"
    and tr: "trace sa = trace s1 @
       [TrainMetric loss (n + length (fst batch)) epoch, EvalModel] @
       map (\<lambda>(metric, v). EvalMetric metric v (n + length (fst batch)) epoch) results"
    by auto
  from batch_loop_extends [OF br] obtain e1 where "trace sb = trace sa @ e1" by blast
  moreover from epoch_loop_extends [OF el] obtain e2 where "trace s' = trace sb @ e2" by blast
  ultimately have "trace s' = trace s1 @
       [TrainMetric loss (n + length (fst batch)) epoch, EvalModel] @
       map (\<lambda>(metric, v). EvalMetric metric v (n + length (fst batch)) epoch) results @ (e1 @ e2)"
    using tr by simp
  with ts em show ?thesis by blast
qed

lemma demo_epoch_loop:
  "epoch_loop demo_externals demo_data adam_config demo_optimizers tiny_loader tiny_loader [0, 1]
     (demo_world, 0) =
   Inr (\<lparr>training_mode = True, weights = 4,
         trace =
           [ModelTrain,
            ZeroGrad (Adam [0, 1] (1 / 1000) (9 / 10, 999 / 1000) (1 / 100000000)),
            ZeroGrad (SparseAdam [2] (1 / 1000) (9 / 10, 999 / 1000) (1 / 100000000)),
            Forward True [[3]], LossFunc [[3, 1 / 2], [3, 1 / 2]] [0, 0], Backward 2,
            OptStep (Adam [0, 1] (1 / 1000) (9 / 10, 999 / 1000) (1 / 100000000)),
            OptStep (SparseAdam [2] (1 / 1000) (9 / 10, 999 / 1000) (1 / 100000000)),
            TrainMetric 2 1 0, EvalModel, EvalMetric ''accuracy'' (1 / 2) 1 0,
            ModelTrain,
            ZeroGrad (Adam [0, 1] (1 / 1000) (9 / 10, 999 / 1000) (1 / 100000000)),
            ZeroGrad (SparseAdam [2] (1 / 1000) (9 / 10, 999 / 1000) (1 / 100000000)),
            Forward True [[3]], LossFunc [[3, 1 / 2], [3, 1 / 2]] [0, 0], Backward 2,
            OptStep (Adam [0, 1] (1 / 1000) (9 / 10, 999 / 1000) (1 / 100000000)),
            OptStep (SparseAdam [2] (1 / 1000) (9 / 10, 999 / 1000) (1 / 100000000)),
            TrainMetric 2 2 1, EvalModel, EvalMetric ''accuracy'' (1 / 2) 2 1]\<rparr>,
        2)"
  by (simp add: tiny_loader_def demo_data_def demo_world_def demo_optimizers_def
      adam_config_def demo_externals_def Let_def
      iterate_def chunks.simps batch_body_def training_step_def model_train_def
      opt_zero_grad_def model_call_def loss_call_def loss_backward_def opt_step_call_def
      record_event_def chosen_labels_def tensor_eq_def masked_select_def evaluate_def log_train_loss_def
      log_results_def numeral_2_eq_2)

theorem first_batch_of_every_epoch_witness:
  "0 < log_every_n_batches (training adam_config) \<and>
   0 < eval_every_n_batches (training adam_config) \<and>
   iterate demo_data tiny_loader 0 = [([0], [[3]])] \<and>
   epoch_loop demo_externals demo_data adam_config demo_optimizers tiny_loader tiny_loader [0, 1]
     (demo_world, 0) =
   Inr (\<lparr>training_mode = True, weights = 4,
         trace =
           [ModelTrain,
            ZeroGrad (Adam [0, 1] (1 / 1000) (9 / 10, 999 / 1000) (1 / 100000000)),
            ZeroGrad (SparseAdam [2] (1 / 1000) (9 / 10, 999 / 1000) (1 / 100000000)),
            Forward True [[3]], LossFunc [[3, 1 / 2], [3, 1 / 2]] [0, 0], Backward 2,
            OptStep (Adam [0, 1] (1 / 1000) (9 / 10, 999 / 1000) (1 / 100000000)),
            OptStep (SparseAdam [2] (1 / 1000) (9 / 10, 999 / 1000) (1 / 100000000)),
            TrainMetric 2 1 0, EvalModel, EvalMetric ''accuracy'' (1 / 2) 1 0,
            ModelTrain,
            ZeroGrad (Adam [0, 1] (1 / 1000) (9 / 10, 999 / 1000) (1 / 100000000)),
            ZeroGrad (SparseAdam [2] (1 / 1000) (9 / 10, 999 / 1000) (1 / 100000000)),
            Forward True [[3]], LossFunc [[3, 1 / 2], [3, 1 / 2]] [0, 0], Backward 2,
            OptStep (Adam [0, 1] (1 / 1000) (9 / 10, 999 / 1000) (1 / 100000000)),
            OptStep (SparseAdam [2] (1 / 1000) (9 / 10, 999 / 1000) (1 / 100000000)),
            TrainMetric 2 2 1, EvalModel, EvalMetric ''accuracy'' (1 / 2) 2 1]\<rparr>,
        2)"
proof -
  have c: "0 < log_every_n_batches (training adam_config)"
    "0 < eval_every_n_batches (training adam_config)"
    by (simp_all add: adam_config_def)
  have it: "iterate demo_data tiny_loader 0 = [([0], [[3]])]"
    by (simp add: iterate_def tiny_loader_def demo_data_def chunks.simps)
  from first_batch_of_every_epoch [OF c demo_epoch_loop it] demo_epoch_loop c it
  show ?thesis by simp
qed

end
